theory Spec2Isabelle
  imports Complex_Main
begin

section \<open>Values of the JavaScript runtime\<close>

text \<open>
  The module \<^verbatim>\<open>updatedcode.js\<close> keeps a running total of stored bytes in the JSON file
  \<^verbatim>\<open>./cumulativeSize.json\<close>. What \<^verbatim>\<open>JSON.parse\<close> returns is a \<open>jsval\<close>; an object keeps
  its members in source order. Numbers are byte counts: a number is the integer value of
  the runtime's double. Every integer up to \<open>2^53\<close> in magnitude is a double; a sum beyond
  is rounded to the nearest double (\<open>to_double\<close> below). The doubles are finite below
  \<open>2^1024\<close>, which is as far as the model of the numbers goes.
\<close>

datatype jsval =
    Undefined
  | Null
  | Bool bool
  | Num int
  | Str string
  | Arr "jsval list"
  | Obj "(string \<times> jsval) list"

text \<open>The result of \<^verbatim>\<open>Math.max\<close>: a number, or \<^verbatim>\<open>NaN\<close>.\<close>

datatype jsnum = Finite int | NaN

datatype errno = ENOENT | EACCES | EPERM | EISDIR | ENOSPC | EIO

datatype error = SystemError errno | SyntaxError | TypeError

text \<open>Truthiness, as \<^verbatim>\<open>||\<close> and \<^verbatim>\<open>if\<close> test it.\<close>

fun truthy :: "jsval \<Rightarrow> bool" where
  "truthy Undefined = False"
| "truthy Null = False"
| "truthy (Bool b) = b"
| "truthy (Num n) = (n \<noteq> 0)"
| "truthy (Str s) = (s \<noteq> [])"
| "truthy (Arr xs) = True"
| "truthy (Obj kvs) = True"

definition js_or :: "jsval \<Rightarrow> jsval \<Rightarrow> jsval" where
  "js_or a b = (if truthy a then a else b)"

text \<open>
  The member access \<^verbatim>\<open>parsed.totalSize\<close>: a TypeError on \<^verbatim>\<open>null\<close> and \<^verbatim>\<open>undefined\<close>,
  the member of an object (the last one, where the JSON text repeats the key), and
  \<^verbatim>\<open>undefined\<close> on everything else, no prototype having a member of that name.
\<close>

fun member_totalSize :: "jsval \<Rightarrow> error + jsval" where
  "member_totalSize Undefined = Inl TypeError"
| "member_totalSize Null = Inl TypeError"
| "member_totalSize (Obj kvs) =
     Inr (case map_of (rev kvs) ''totalSize'' of None \<Rightarrow> Undefined | Some v \<Rightarrow> v)"
| "member_totalSize v = Inr Undefined"

subsection \<open>Arithmetic of the doubles on integers\<close>

text \<open>
  The number of binary digits of a natural number, and the rounding of \<open>n\<close> to a multiple
  of \<open>u\<close>, the nearer one, a tie going to the even multiple.
\<close>

fun bitlen :: "nat \<Rightarrow> nat" where
  "bitlen n = (if n = 0 then 0 else Suc (bitlen (n div 2)))"

declare bitlen.simps [simp del]

definition round_to_even :: "nat \<Rightarrow> nat \<Rightarrow> nat" where
  "round_to_even u n =
     (let q = n div u; r = n mod u
      in if 2 * r < u then q * u
         else if u < 2 * r then (q + 1) * u
         else if even q then q * u
         else (q + 1) * u)"

text \<open>
  The double that an integer result is rounded to: the integer itself up to \<open>2^53\<close> in
  magnitude, and beyond that the nearest integer with 53 significant binary digits (round
  to nearest, ties to even), which is what the addition of two doubles returns.
\<close>

definition to_double :: "int \<Rightarrow> int" where
  "to_double x =
     (if \<bar>x\<bar> \<le> 9007199254740992 then x
      else (let m = nat \<bar>x\<bar>; u = 2 ^ (bitlen m - 53)
            in sgn x * int (round_to_even u m)))"

text \<open>\<^verbatim>\<open>Number.isSafeInteger\<close>: the integers up to \<open>2^53 - 1\<close> in magnitude.\<close>

definition isSafeInteger :: "int \<Rightarrow> bool" where
  "isSafeInteger x = (\<bar>x\<bar> \<le> 9007199254740991)"

text \<open>
  Two conversions of the runtime are left open, as the fields of a parameter \<open>co\<close>, and
  the theorems below hold for every value of it. \<open>string_sum\<close>: on a string, an array or
  an object, \<^verbatim>\<open>currentSize + delta\<close> is a string concatenation, and the field gives the
  number that \<^verbatim>\<open>Math.max\<close> makes of that string (or the TypeError of an object that cannot
  be converted). \<open>large_text\<close>: the decimal text of a number beyond \<open>2^53\<close>, where the
  runtime prints the shortest digits that read back as the same double, in exponent
  notation from \<open>10^21\<close> on.
\<close>

record coercion =
  string_sum :: "jsval \<Rightarrow> int \<Rightarrow> error + jsnum"
  large_text :: "int \<Rightarrow> string"

text \<open>
  A string whose first character is a letter other than \<^verbatim>\<open>I\<close> (of \<^verbatim>\<open>Infinity\<close>) is not
  the text of a number, whatever follows it: such a string is not left to \<open>co\<close>.
\<close>

definition starts_with_letter :: "string \<Rightarrow> bool" where
  "starts_with_letter s =
     (case s of
        [] \<Rightarrow> False
      | c # cs \<Rightarrow> c \<in> set ''abcdefghijklmnopqrstuvwxyzABCDEFGHJKLMNOPQRSTUVWXYZ'')"

text \<open>
  \<^verbatim>\<open>currentSize + delta\<close>, read as the number \<^verbatim>\<open>Math.max\<close> makes of it. On a number, a
  boolean or \<^verbatim>\<open>null\<close> the sum is the sum of two doubles. On a string the sum is the
  string followed by the text of \<open>delta\<close>, which is \<^verbatim>\<open>NaN\<close> as a number when the string
  starts with a letter.
\<close>

fun js_plus :: "coercion \<Rightarrow> jsval \<Rightarrow> int \<Rightarrow> error + jsnum" where
  "js_plus co (Num a) d = Inr (Finite (to_double (a + d)))"
| "js_plus co (Bool b) d = Inr (Finite (to_double ((if b then 1 else 0) + d)))"
| "js_plus co Null d = Inr (Finite d)"
| "js_plus co Undefined d = Inr NaN"
| "js_plus co (Str s) d =
     (if starts_with_letter s then Inr NaN else string_sum co (Str s) d)"
| "js_plus co v d = string_sum co v d"

fun Math_max :: "int \<Rightarrow> jsnum \<Rightarrow> jsnum" where
  "Math_max a (Finite b) = Finite (max a b)"
| "Math_max a NaN = NaN"

subsection \<open>Decimal text of a number\<close>

fun show_nat :: "nat \<Rightarrow> string" where
  "show_nat n =
     (if n < 10 then [''0123456789'' ! n]
      else show_nat (n div 10) @ [''0123456789'' ! (n mod 10)])"

declare show_nat.simps [simp del]

definition show_int :: "int \<Rightarrow> string" where
  "show_int i = (if i < 0 then ''-'' @ show_nat (nat (- i)) else show_nat (nat i))"

text \<open>
  The text that the runtime prints for a number: its decimal digits up to \<open>2^53\<close> in
  magnitude, and what \<open>large_text\<close> gives beyond.
\<close>

definition Number_toString :: "coercion \<Rightarrow> int \<Rightarrow> string" where
  "Number_toString co n =
     (if \<bar>n\<bar> \<le> 9007199254740992 then show_int n else large_text co n)"

section \<open>The file system\<close>

text \<open>
  A file is its bytes together with what \<^verbatim>\<open>JSON.parse\<close> makes of them (\<open>None\<close>: the
  text is not JSON, and parsing raises a SyntaxError). The files are kept by location.
  A \<open>path\<close> names a location, one name for each; the path strings that a caller passes
  are other spellings, which the operating system resolves to a location (\<open>realpath\<close>,
  used by \<open>resolve\<close> below). A call of \<^verbatim>\<open>fs/promises\<close> rejects with \<open>ENOENT\<close> on a missing
  file, and with the error that \<open>fault\<close> gives for that call and location when the
  environment refuses it (permissions, a full disk, an I/O error).
\<close>

type_synonym path = string

record inode =
  bytes :: string
  json :: "jsval option"

datatype syscall = ReadFile | WriteFile | Stat | Unlink

record fs =
  files :: "path \<Rightarrow> inode option"
  fault :: "syscall \<Rightarrow> path \<Rightarrow> errno option"
  realpath :: "string \<Rightarrow> path"

definition readFile :: "fs \<Rightarrow> path \<Rightarrow> error + inode" where
  "readFile s p =
     (case fault s ReadFile p of
        Some e \<Rightarrow> Inl (SystemError e)
      | None \<Rightarrow> (case files s p of None \<Rightarrow> Inl (SystemError ENOENT) | Some f \<Rightarrow> Inr f))"

definition writeFile :: "fs \<Rightarrow> path \<Rightarrow> inode \<Rightarrow> error + fs" where
  "writeFile s p f =
     (case fault s WriteFile p of
        Some e \<Rightarrow> Inl (SystemError e)
      | None \<Rightarrow> Inr (s\<lparr>files := (files s)(p \<mapsto> f)\<rparr>))"

text \<open>\<^verbatim>\<open>fs.stat\<close>, of which the module reads the \<^verbatim>\<open>size\<close> only.\<close>

definition stat :: "fs \<Rightarrow> path \<Rightarrow> error + nat" where
  "stat s p =
     (case fault s Stat p of
        Some e \<Rightarrow> Inl (SystemError e)
      | None \<Rightarrow> (case files s p of
                  None \<Rightarrow> Inl (SystemError ENOENT)
                | Some f \<Rightarrow> Inr (length (bytes f))))"

definition unlink :: "fs \<Rightarrow> path \<Rightarrow> error + fs" where
  "unlink s p =
     (case fault s Unlink p of
        Some e \<Rightarrow> Inl (SystemError e)
      | None \<Rightarrow> (case files s p of
                  None \<Rightarrow> Inl (SystemError ENOENT)
                | Some f \<Rightarrow> Inr (s\<lparr>files := (files s)(p := None)\<rparr>)))"

definition JSON_parse :: "inode \<Rightarrow> error + jsval" where
  "JSON_parse f = (case json f of None \<Rightarrow> Inl SyntaxError | Some v \<Rightarrow> Inr v)"

text \<open>
  \<^verbatim>\<open>JSON.stringify({ totalSize: newSize })\<close>: the text written, and the document that
  parsing this text gives back. JSON has no \<^verbatim>\<open>NaN\<close>; it is written as \<^verbatim>\<open>null\<close>.
\<close>

fun JSON_stringify_totalSize :: "coercion \<Rightarrow> jsnum \<Rightarrow> inode" where
  \<open>JSON_stringify_totalSize co (Finite n) =
     \<lparr>bytes = ''{"totalSize":'' @ Number_toString co n @ ''}'',
      json = Some (Obj [(''totalSize'', Num n)])\<rparr>\<close>
| \<open>JSON_stringify_totalSize co NaN =
     \<lparr>bytes = ''{"totalSize":null}'',
      json = Some (Obj [(''totalSize'', Null)])\<rparr>\<close>

section \<open>The size ledger\<close>

text \<open>
  The location of the ledger file is named by the spelling that the module uses for it.
  Any other path string resolves to the location that the operating system gives it,
  which may be the ledger's.
\<close>

definition CUMULATIVE_SIZE_FILE :: path where
  "CUMULATIVE_SIZE_FILE = ''./cumulativeSize.json''"

definition resolve :: "fs \<Rightarrow> string \<Rightarrow> path" where
  "resolve s p = (if p = CUMULATIVE_SIZE_FILE then CUMULATIVE_SIZE_FILE else realpath s p)"

text \<open>The body of the \<^verbatim>\<open>try\<close> block of \<^verbatim>\<open>getCumulativeSize\<close>.\<close>

definition getCumulativeSize_try :: "fs \<Rightarrow> error + jsval" where
  "getCumulativeSize_try s =
     (case readFile s CUMULATIVE_SIZE_FILE of
        Inl e \<Rightarrow> Inl e
      | Inr data \<Rightarrow>
          (case JSON_parse data of
             Inl e \<Rightarrow> Inl e
           | Inr parsed \<Rightarrow>
               (case member_totalSize parsed of
                  Inl e \<Rightarrow> Inl e
                | Inr v \<Rightarrow> Inr (js_or v (Num 0)))))"

definition getCumulativeSize :: "fs \<Rightarrow> jsval" where
  "getCumulativeSize s =
     (case getCumulativeSize_try s of Inl err \<Rightarrow> Num 0 | Inr v \<Rightarrow> v)"

definition updateCumulativeSize :: "coercion \<Rightarrow> int \<Rightarrow> fs \<Rightarrow> error + (jsnum \<times> fs)" where
  "updateCumulativeSize co delta s =
     (let currentSize = getCumulativeSize s in
      case js_plus co currentSize delta of
        Inl e \<Rightarrow> Inl e
      | Inr added \<Rightarrow>
          (let newSize = Math_max 0 added in
           case writeFile s CUMULATIVE_SIZE_FILE (JSON_stringify_totalSize co newSize) of
             Inl e \<Rightarrow> Inl e
           | Inr s' \<Rightarrow> Inr (newSize, s')))"

text \<open>
  The member \<^verbatim>\<open>totalSize\<close> that the ledger file holds on disk, if it holds one.
\<close>

definition persisted_totalSize :: "fs \<Rightarrow> jsval option" where
  "persisted_totalSize s =
     (case files s CUMULATIVE_SIZE_FILE of
        None \<Rightarrow> None
      | Some f \<Rightarrow>
          (case json f of
             Some (Obj kvs) \<Rightarrow> map_of (rev kvs) ''totalSize''
           | _ \<Rightarrow> None))"

text \<open>The invariant of the data model: a total on disk is a non-negative integer.\<close>

definition ledger_nonneg :: "fs \<Rightarrow> bool" where
  "ledger_nonneg s =
     (case persisted_totalSize s of
        None \<Rightarrow> True
      | Some (Num n) \<Rightarrow> 0 \<le> n
      | Some v \<Rightarrow> False)"

text \<open>
  A sequence of calls of \<^verbatim>\<open>updateCumulativeSize\<close>, one per delta: the states of the
  file system after each call. A call that rejects leaves the state as it was.
\<close>

fun run_updates :: "coercion \<Rightarrow> int list \<Rightarrow> fs \<Rightarrow> fs list" where
  "run_updates co [] s = []"
| "run_updates co (d # ds) s =
     (let s' = (case updateCumulativeSize co d s of Inl e \<Rightarrow> s | Inr (n, t) \<Rightarrow> t)
      in s' # run_updates co ds s')"

section \<open>The upload pipeline\<close>

subsection \<open>Strings\<close>

text \<open>
  \<^verbatim>\<open>/pdf/.test(s)\<close>: the pattern is a literal without anchors or flags, so the test is
  whether \<open>s\<close> contains it, case-sensitively.
\<close>

fun regex_test :: "string \<Rightarrow> string \<Rightarrow> bool" where
  "regex_test pat [] = (pat = [])"
| "regex_test pat (c # cs) = (take (length pat) (c # cs) = pat \<or> regex_test pat cs)"

definition filetypes :: string where
  "filetypes = ''pdf''"

text \<open>\<^verbatim>\<open>toLowerCase\<close>, on the letters of ASCII.\<close>

definition lower_char :: "char \<Rightarrow> char" where
  "lower_char c =
     (case map_of (zip ''ABCDEFGHIJKLMNOPQRSTUVWXYZ'' ''abcdefghijklmnopqrstuvwxyz'') c of
        None \<Rightarrow> c
      | Some l \<Rightarrow> l)"

definition toLowerCase :: "string \<Rightarrow> string" where
  "toLowerCase s = map lower_char s"

text \<open>
  \<^verbatim>\<open>path.extname\<close> of Node.js, on POSIX paths: the last portion of the path (trailing
  slashes dropped) from its last dot on, and the empty string when that portion has no
  dot, when its only dot is its first character, or when the portion is \<^verbatim>\<open>..\<close>.
\<close>

definition path_last_portion :: "string \<Rightarrow> string" where
  "path_last_portion p =
     rev (takeWhile (\<lambda>c. c \<noteq> CHR ''/'') (dropWhile (\<lambda>c. c = CHR ''/'') (rev p)))"

definition path_extname :: "string \<Rightarrow> string" where
  "path_extname p =
     (let b = path_last_portion p;
          e = rev (takeWhile (\<lambda>c. c \<noteq> CHR ''.'') (rev b))
      in if CHR ''.'' \<notin> set b then []
         else if Suc (length e) = length b then []
         else if b = ''..'' then []
         else CHR ''.'' # e)"

subsection \<open>The uploaded file and the errors of the upload step\<close>

text \<open>
  The file object that the upload library hands to \<^verbatim>\<open>fileFilter\<close> and
  \<^verbatim>\<open>storage.filename\<close> and leaves in \<^verbatim>\<open>req.file\<close>; \<open>size_bytes\<close> is its \<^verbatim>\<open>size\<close>.
\<close>

record upload_file =
  fieldname :: string
  originalname :: string
  mimetype :: string
  size_bytes :: nat

text \<open>
  Modelled from the spec: the file object that the multipart parser of the upload library,
  whose code is not part of the module, builds for a file part of the request. The part
  declares a field name, a file name and, in its \<^verbatim>\<open>Content-Type\<close> header, a media type
  \<^verbatim>\<open>type/subtype\<close>; the parser reports the media type in lower case, which is what makes
  the match of the filter on the MIME type independent of case.
\<close>

record part =
  declared_field :: string
  declared_filename :: string
  declared_type :: string
  length_bytes :: nat

definition file_object :: "part \<Rightarrow> upload_file" where
  "file_object p =
     \<lparr>fieldname = declared_field p, originalname = declared_filename p,
      mimetype = toLowerCase (declared_type p), size_bytes = length_bytes p\<rparr>"

text \<open>
  An error passed to the callback: a \<^verbatim>\<open>multer.MulterError\<close> with its code and message,
  or any other \<^verbatim>\<open>Error\<close> with its message.
\<close>

datatype err = MulterError string string | Error string

subsection \<open>Storage file name\<close>

text \<open>\<^verbatim>\<open>Math.round\<close>: the nearest integer, a half rounding up.\<close>

definition Math_round :: "real \<Rightarrow> int" where
  "Math_round x = \<lfloor>x + 1 / 2\<rfloor>"

text \<open>
  \<^verbatim>\<open>storage.filename\<close>, given the value \<open>now\<close> of \<^verbatim>\<open>Date.now()\<close> and the value \<open>random\<close>
  of \<^verbatim>\<open>Math.random()\<close>, which the runtime draws with \<open>0 \<le> random < 1\<close>.
\<close>

definition storage_filename :: "nat \<Rightarrow> real \<Rightarrow> upload_file \<Rightarrow> string" where
  "storage_filename now random f =
     (let uniqueSuffix = show_nat now @ ''-'' @ show_int (Math_round (random * 1000000000))
      in uniqueSuffix @ ''-'' @ originalname f)"

subsection \<open>File filter and limits\<close>

definition fileFilter :: "upload_file \<Rightarrow> err + bool" where
  "fileFilter f =
     (let mimetype_ok = regex_test filetypes (mimetype f);
          extname_ok = regex_test filetypes (toLowerCase (path_extname (originalname f)))
      in if mimetype_ok \<and> extname_ok then Inr True
         else Inl (Error ''Invalid file type. Only PDF files are allowed.''))"

definition fileSize_limit :: nat where
  "fileSize_limit = 20 * 1024 * 1024"

text \<open>
  What the parser passes to the callback of \<^verbatim>\<open>singleUpload\<close>: an error, or success with
  \<^verbatim>\<open>req.file\<close> set (\<open>Some\<close>) or left undefined (\<open>None\<close>, a request without a file).
\<close>

datatype upload_result = Failed err | Stored "upload_file option"

text \<open>
  Modelled from the spec: the single-file multipart parser \<^verbatim>\<open>upload.single('report_pdf')\<close>
  of the upload library, whose code is not part of the module. The request is the list
  of its file parts. A part under another field name, or a second part, is the
  "unexpected extra file" error; the type filter runs on a part before it is stored;
  a part larger than the size limit is the size-limit error; a request without a file
  succeeds with no file.
\<close>

fun singleUpload :: "upload_file list \<Rightarrow> upload_result" where
  "singleUpload [] = Stored None"
| "singleUpload [f] =
     (if fieldname f \<noteq> ''report_pdf''
      then Failed (MulterError ''LIMIT_UNEXPECTED_FILE'' ''Unexpected field'')
      else (case fileFilter f of
              Inl e \<Rightarrow> Failed e
            | Inr accepted \<Rightarrow>
                if fileSize_limit < size_bytes f
                then Failed (MulterError ''LIMIT_FILE_SIZE'' ''File too large'')
                else Stored (Some f)))"
| "singleUpload (f # g # parts) =
     (case singleUpload [f] of
        Failed e \<Rightarrow> Failed e
      | Stored r \<Rightarrow> Failed (MulterError ''LIMIT_UNEXPECTED_FILE'' ''Unexpected field''))"

subsection \<open>The middleware\<close>

text \<open>The JSON body of an error response, and \<^verbatim>\<open>res.status(code).json(body)\<close>.\<close>

record body =
  status :: bool
  status_code :: nat
  message :: string

record response =
  http_status :: nat
  payload :: body

text \<open>
  How a request leaves \<^verbatim>\<open>handleFileUpload\<close>: with a response, with control passed to
  \<^verbatim>\<open>next()\<close>, or with the callback rejected by an error that nothing catches (then
  neither a response is sent nor \<^verbatim>\<open>next()\<close> called).
\<close>

datatype outcome = Responded response | Next | Rejected error

text \<open>
  The callback given to \<^verbatim>\<open>singleUpload\<close>. The state is the file system as the parser
  left it; the state returned is the one in which the response is sent or \<^verbatim>\<open>next()\<close>
  is called.
\<close>

definition upload_callback :: "coercion \<Rightarrow> upload_result \<Rightarrow> fs \<Rightarrow> outcome \<times> fs" where
  "upload_callback co r s =
     (case r of
        Failed (MulterError code msg) \<Rightarrow>
          if code = ''LIMIT_UNEXPECTED_FILE''
          then (Responded \<lparr>http_status = 400, payload =
                  \<lparr>status = False, status_code = 400,
                   message = ''Only a single file can be uploaded for report_pdf.''\<rparr>\<rparr>, s)
          else (Responded \<lparr>http_status = 400, payload =
                  \<lparr>status = False, status_code = 400, message = msg\<rparr>\<rparr>, s)
      | Failed (Error msg) \<Rightarrow>
          if msg = ''Invalid file type. Only PDF files are allowed.''
          then (Responded \<lparr>http_status = 400, payload =
                  \<lparr>status = False, status_code = 400,
                   message = ''Invalid file type. Only PDF files are accepted.''\<rparr>\<rparr>, s)
          else (Responded \<lparr>http_status = 500, payload =
                  \<lparr>status = False, status_code = 500,
                   message = ''An error occurred during file upload.''\<rparr>\<rparr>, s)
      | Stored file \<Rightarrow>
          (case file of
             None \<Rightarrow> (Next, s)
           | Some f \<Rightarrow>
               if size_bytes f \<noteq> 0
               then (case updateCumulativeSize co (int (size_bytes f)) s of
                       Inl e \<Rightarrow> (Rejected e, s)
                     | Inr (newSize, s') \<Rightarrow> (Next, s'))
               else (Next, s)))"

definition handleFileUpload :: "coercion \<Rightarrow> upload_file list \<Rightarrow> fs \<Rightarrow> outcome \<times> fs" where
  "handleFileUpload co parts s = upload_callback co (singleUpload parts) s"

section \<open>Deletion\<close>

text \<open>
  \<^verbatim>\<open>deleteReportFile\<close>: the three awaited steps inside \<^verbatim>\<open>try\<close>, each of which may throw
  into the \<^verbatim>\<open>catch\<close> that returns \<^verbatim>\<open>false\<close>. The path string is the caller's; the
  calls of \<^verbatim>\<open>fs.stat\<close> and \<^verbatim>\<open>fs.unlink\<close> act on the location it resolves to. The state
  returned is the file system the call leaves behind.
\<close>

definition deleteReportFile :: "coercion \<Rightarrow> string \<Rightarrow> fs \<Rightarrow> bool \<times> fs" where
  "deleteReportFile co filePath s =
     (case stat s (resolve s filePath) of
        Inl err \<Rightarrow> (False, s)
      | Inr stats_size \<Rightarrow>
          (case unlink s (resolve s filePath) of
             Inl err \<Rightarrow> (False, s)
           | Inr s1 \<Rightarrow>
               (case updateCumulativeSize co (- int stats_size) s1 of
                  Inl err \<Rightarrow> (False, s1)
                | Inr (newSize, s2) \<Rightarrow> (True, s2))))"

section \<open>Example states\<close>

text \<open>An empty disk on which every call succeeds, and a conversion for the examples.\<close>

definition empty_fs :: fs where
  "empty_fs = \<lparr>files = (\<lambda>p. None), fault = (\<lambda>c p. None), realpath = (\<lambda>p. p)\<rparr>"

definition co_NaN :: coercion where
  "co_NaN = \<lparr>string_sum = (\<lambda>v d. Inr NaN), large_text = (\<lambda>n. [])\<rparr>"

text \<open>A second conversion, which never answers \<^verbatim>\<open>NaN\<close>.\<close>

definition co_zero :: coercion where
  "co_zero = \<lparr>string_sum = (\<lambda>v d. Inr (Finite 0)), large_text = (\<lambda>n. [])\<rparr>"

text \<open>A disk whose only file is a ledger written with the total \<open>n\<close>.\<close>

definition ledger_holding :: "int \<Rightarrow> fs" where
  "ledger_holding n =
     empty_fs\<lparr>files := (files empty_fs)(CUMULATIVE_SIZE_FILE \<mapsto>
       JSON_stringify_totalSize co_NaN (Finite n))\<rparr>"

text \<open>A ledger file that is not JSON, and a ledger file that cannot be read.\<close>

definition corrupt_fs :: fs where
  "corrupt_fs =
     empty_fs\<lparr>files := (files empty_fs)(CUMULATIVE_SIZE_FILE \<mapsto>
       \<lparr>bytes = ''not json'', json = None\<rparr>)\<rparr>"

definition unreadable_fs :: fs where
  "unreadable_fs =
     (ledger_holding 500)\<lparr>fault := (\<lambda>c p.
        if c = ReadFile \<and> p = CUMULATIVE_SIZE_FILE then Some EACCES else None)\<rparr>"

text \<open>Uploads: a PDF report, a text file with a forged MIME type, and a PDF of one byte
  more than the limit.\<close>

definition report_upload :: upload_file where
  "report_upload =
     \<lparr>fieldname = ''report_pdf'', originalname = ''report.pdf'',
      mimetype = ''application/pdf'', size_bytes = 2048\<rparr>"

definition forged_upload :: upload_file where
  "forged_upload =
     \<lparr>fieldname = ''report_pdf'', originalname = ''a b.txt'',
      mimetype = ''application/pdf'', size_bytes = 5\<rparr>"

definition oversized_upload :: upload_file where
  "oversized_upload =
     \<lparr>fieldname = ''report_pdf'', originalname = ''report.pdf'',
      mimetype = ''application/pdf'', size_bytes = 20971521\<rparr>"

text \<open>A disk with a stored report of 2048 bytes beside a ledger, and the same disk with
  the ledger write refused.\<close>

definition stored_path :: path where
  "stored_path = ''uploads/1730000000000-42-report.pdf''"

definition disk_with_report :: "int \<Rightarrow> fs" where
  "disk_with_report n =
     (ledger_holding n)\<lparr>files := (files (ledger_holding n))(stored_path \<mapsto>
        \<lparr>bytes = replicate 2048 (CHR ''x''), json = None\<rparr>)\<rparr>"

definition readonly_ledger_disk :: fs where
  "readonly_ledger_disk =
     (disk_with_report 5000)\<lparr>fault := (\<lambda>c p.
        if c = WriteFile \<and> p = CUMULATIVE_SIZE_FILE then Some EACCES else None)\<rparr>"

text \<open>A ledger whose \<^verbatim>\<open>totalSize\<close> is the string \<^verbatim>\<open>"abc"\<close>, alone and beside the stored
  report.\<close>

definition abc_ledger :: fs where
  \<open>abc_ledger =
     empty_fs\<lparr>files := (files empty_fs)(CUMULATIVE_SIZE_FILE \<mapsto>
       \<lparr>bytes = ''{"totalSize":"abc"}'',
        json = Some (Obj [(''totalSize'', Str ''abc'')])\<rparr>)\<rparr>\<close>

definition abc_ledger_with_report :: fs where
  "abc_ledger_with_report =
     abc_ledger\<lparr>files := (files abc_ledger)(stored_path \<mapsto>
        \<lparr>bytes = replicate 2048 (CHR ''x''), json = None\<rparr>)\<rparr>"

text \<open>A disk on which the ledger write is refused and nothing else is.\<close>

definition readonly_ledger :: fs where
  "readonly_ledger =
     (ledger_holding 700)\<lparr>fault := (\<lambda>c p.
        if c = WriteFile \<and> p = CUMULATIVE_SIZE_FILE then Some EACCES else None)\<rparr>"

text \<open>A disk on which the spelling \<^verbatim>\<open>cumulativeSize.json\<close> resolves to the ledger.\<close>

definition ledger_500_aliased :: fs where
  "ledger_500_aliased =
     (ledger_holding 500)\<lparr>realpath := (\<lambda>p.
        if p = ''cumulativeSize.json'' then CUMULATIVE_SIZE_FILE else p)\<rparr>"

text \<open>A PDF of one byte, and a stored file of one byte beside a ledger that holds
  \<open>2^53 + 2\<close>.\<close>

definition tiny_upload :: upload_file where
  "tiny_upload =
     \<lparr>fieldname = ''report_pdf'', originalname = ''tiny.pdf'',
      mimetype = ''application/pdf'', size_bytes = 1\<rparr>"

definition tiny_path :: path where
  "tiny_path = ''uploads/1730000000000-7-tiny.pdf''"

definition big_ledger_with_tiny :: fs where
  \<open>big_ledger_with_tiny =
     empty_fs\<lparr>files := ((files empty_fs)(CUMULATIVE_SIZE_FILE \<mapsto>
         \<lparr>bytes = ''{"totalSize":9007199254740994}'',
          json = Some (Obj [(''totalSize'', Num 9007199254740994)])\<rparr>))
       (tiny_path \<mapsto> \<lparr>bytes = ''x'', json = None\<rparr>)\<rparr>\<close>

text \<open>File parts as a client declares them: a PDF with its type and extension in upper
  case, and a text file declared as a PDF.\<close>

definition upper_case_part :: part where
  "upper_case_part =
     \<lparr>declared_field = ''report_pdf'', declared_filename = ''REPORT.PDF'',
      declared_type = ''Application/PDF'', length_bytes = 2048\<rparr>"

definition forged_part :: part where
  "forged_part =
     \<lparr>declared_field = ''report_pdf'', declared_filename = ''a b.txt'',
      declared_type = ''application/pdf'', length_bytes = 5\<rparr>"

section \<open>Properties of the numbers\<close>

lemma to_double_exact: "\<bar>x\<bar> \<le> 9007199254740992 \<Longrightarrow> to_double x = x"
  by (simp add: to_double_def)

lemma to_double_safe: "isSafeInteger x \<Longrightarrow> to_double x = x"
  by (simp add: to_double_def isSafeInteger_def)

lemma Number_toString_safe: "isSafeInteger x \<Longrightarrow> Number_toString co x = show_int x"
  by (simp add: Number_toString_def isSafeInteger_def)

lemma isSafeInteger_max0: "isSafeInteger x \<Longrightarrow> isSafeInteger (max 0 x)"
  by (auto simp: isSafeInteger_def max_def)

lemma bitlen_above_2_53: "bitlen 9007199254740993 = 54"
  by (simp add: bitlen.simps)

lemma round_to_even_above_2_53: "round_to_even 2 9007199254740993 = 9007199254740992"
  by (simp add: round_to_even_def)

lemma to_double_above_2_53: "to_double 9007199254740993 = 9007199254740992"
  by (simp add: to_double_def bitlen_above_2_53 round_to_even_above_2_53)

section \<open>Properties of the ledger\<close>

lemma show_int_500: "show_int 500 = ''500''"
  by (simp add: show_int_def show_nat.simps)

lemma show_int_0: "show_int 0 = ''0''"
  by (simp add: show_int_def show_nat.simps)

lemma getCumulativeSize_absent:
  "files s CUMULATIVE_SIZE_FILE = None \<Longrightarrow> getCumulativeSize s = Num 0"
  by (simp add: getCumulativeSize_def getCumulativeSize_try_def readFile_def
      split: option.splits)

lemma getCumulativeSize_unreadable:
  "fault s ReadFile CUMULATIVE_SIZE_FILE = Some e \<Longrightarrow> getCumulativeSize s = Num 0"
  by (simp add: getCumulativeSize_def getCumulativeSize_try_def readFile_def)

lemma getCumulativeSize_unparsable:
  "files s CUMULATIVE_SIZE_FILE = Some f \<Longrightarrow> json f = None \<Longrightarrow> getCumulativeSize s = Num 0"
  by (simp add: getCumulativeSize_def getCumulativeSize_try_def readFile_def JSON_parse_def
      split: option.splits)

lemma getCumulativeSize_member:
  assumes "fault s ReadFile CUMULATIVE_SIZE_FILE = None"
    and "files s CUMULATIVE_SIZE_FILE = Some f"
    and "json f = Some (Obj kvs)"
    and "map_of (rev kvs) ''totalSize'' = Some v"
  shows "getCumulativeSize s = js_or v (Num 0)"
  using assms
  by (simp add: getCumulativeSize_def getCumulativeSize_try_def readFile_def JSON_parse_def)

lemma js_or_Num: "js_or (Num n) (Num 0) = Num n"
  by (simp add: js_or_def)

lemma updateCumulativeSize_Num:
  assumes "getCumulativeSize s = Num n"
    and "fault s WriteFile CUMULATIVE_SIZE_FILE = None"
  shows "updateCumulativeSize co delta s =
           Inr (Finite (max 0 (to_double (n + delta))),
                s\<lparr>files := (files s)(CUMULATIVE_SIZE_FILE \<mapsto>
                     JSON_stringify_totalSize co (Finite (max 0 (to_double (n + delta)))))\<rparr>)"
  using assms by (simp add: updateCumulativeSize_def writeFile_def)

lemma updateCumulativeSize_Str:
  assumes "getCumulativeSize s = Str t" and "starts_with_letter t"
    and "fault s WriteFile CUMULATIVE_SIZE_FILE = None"
  shows "updateCumulativeSize co delta s =
           Inr (NaN, s\<lparr>files := (files s)(CUMULATIVE_SIZE_FILE \<mapsto>
                        JSON_stringify_totalSize co NaN)\<rparr>)"
  using assms by (simp add: updateCumulativeSize_def writeFile_def)

lemma stringify_safe:
  assumes "isSafeInteger x"
  shows \<open>JSON_stringify_totalSize co (Finite x) =
           \<lparr>bytes = ''{"totalSize":'' @ show_int x @ ''}'',
            json = Some (Obj [(''totalSize'', Num x)])\<rparr>\<close>
  using assms by (simp add: Number_toString_safe)

lemma updateCumulativeSize_write_fault:
  assumes "fault s WriteFile CUMULATIVE_SIZE_FILE = Some e"
  shows "\<exists>e'. updateCumulativeSize co delta s = Inl e'"
  using assms
  by (simp add: updateCumulativeSize_def writeFile_def Let_def split: sum.splits)

lemma getCumulativeSize_document:
  assumes "fault s ReadFile CUMULATIVE_SIZE_FILE = None"
    and "files s CUMULATIVE_SIZE_FILE = Some f"
    and "json f = Some doc"
  shows "getCumulativeSize s =
           (case member_totalSize doc of
              Inl e \<Rightarrow> Num 0
            | Inr v \<Rightarrow> if truthy v then v else Num 0)"
  using assms
  by (simp add: getCumulativeSize_def getCumulativeSize_try_def readFile_def JSON_parse_def
      js_or_def split: sum.splits)

lemma ledger_nonneg_read:
  assumes "ledger_nonneg s"
  shows "\<exists>n. 0 \<le> n \<and> getCumulativeSize s = Num n"
proof (cases "fault s ReadFile CUMULATIVE_SIZE_FILE")
  case (Some e)
  then show ?thesis by (simp add: getCumulativeSize_unreadable)
next
  case None
  note nofault = this
  show ?thesis
  proof (cases "files s CUMULATIVE_SIZE_FILE")
    case None
    then show ?thesis by (simp add: getCumulativeSize_absent)
  next
    case (Some f)
    note present = this
    show ?thesis
    proof (cases "json f")
      case None
      with present show ?thesis by (simp add: getCumulativeSize_unparsable)
    next
      case (Some doc)
      have rd: "getCumulativeSize s =
           (case member_totalSize doc of
              Inl e \<Rightarrow> Num 0
            | Inr v \<Rightarrow> if truthy v then v else Num 0)"
        using nofault present Some by (rule getCumulativeSize_document)
      show ?thesis
      proof (cases doc)
        case (Obj kvs)
        show ?thesis
        proof (cases "map_of (rev kvs) ''totalSize''")
          case None
          with rd Obj show ?thesis by simp
        next
          case (Some v)
          with assms present \<open>json f = Some doc\<close> Obj
          have "\<exists>n. v = Num n \<and> 0 \<le> n"
            by (cases v) (simp_all add: ledger_nonneg_def persisted_totalSize_def)
          with rd Obj Some show ?thesis by auto
        qed
      qed (use rd in simp_all)
    qed
  qed
qed

lemma persisted_after_write:
  "persisted_totalSize
     (s\<lparr>files := (files s)(CUMULATIVE_SIZE_FILE \<mapsto> JSON_stringify_totalSize co (Finite n))\<rparr>)
   = Some (Num n)"
  by (simp add: persisted_totalSize_def)

lemma getCumulativeSize_after_write:
  "\<exists>m. getCumulativeSize
     (s\<lparr>files := (files s)(CUMULATIVE_SIZE_FILE \<mapsto> JSON_stringify_totalSize co (Finite n))\<rparr>)
   = Num m \<and> (m = n \<or> m = 0)"
  by (simp add: getCumulativeSize_def getCumulativeSize_try_def readFile_def JSON_parse_def
      js_or_def split: option.splits)

lemma getCumulativeSize_after_write_readable:
  assumes "fault s ReadFile CUMULATIVE_SIZE_FILE = None"
  shows "getCumulativeSize
     (s\<lparr>files := (files s)(CUMULATIVE_SIZE_FILE \<mapsto> JSON_stringify_totalSize co (Finite n))\<rparr>)
   = Num n"
  using assms
  by (simp add: getCumulativeSize_def getCumulativeSize_try_def readFile_def JSON_parse_def
      js_or_def)

lemma updateCumulativeSize_cases:
  assumes "getCumulativeSize s = Num n"
  shows "(\<exists>e. updateCumulativeSize co delta s = Inl (SystemError e)
              \<and> fault s WriteFile CUMULATIVE_SIZE_FILE = Some e)
         \<or> (fault s WriteFile CUMULATIVE_SIZE_FILE = None
              \<and> updateCumulativeSize co delta s =
                  Inr (Finite (max 0 (to_double (n + delta))),
                       s\<lparr>files := (files s)(CUMULATIVE_SIZE_FILE \<mapsto>
                            JSON_stringify_totalSize co
                              (Finite (max 0 (to_double (n + delta)))))\<rparr>))"
  using assms
  by (cases "fault s WriteFile CUMULATIVE_SIZE_FILE")
     (simp_all add: updateCumulativeSize_def writeFile_def)

lemma updateCumulativeSize_keeps_nonneg:
  assumes "ledger_nonneg s"
  shows "ledger_nonneg (case updateCumulativeSize co d s of Inl e \<Rightarrow> s | Inr (n, t) \<Rightarrow> t)"
proof -
  from assms obtain n where "getCumulativeSize s = Num n"
    using ledger_nonneg_read by blast
  from updateCumulativeSize_cases [OF this, of co d] show ?thesis
  proof (elim disjE exE conjE)
    fix e assume "updateCumulativeSize co d s = Inl (SystemError e)"
    with assms show ?thesis by simp
  next
    assume "updateCumulativeSize co d s =
              Inr (Finite (max 0 (to_double (n + d))),
                   s\<lparr>files := (files s)(CUMULATIVE_SIZE_FILE \<mapsto>
                        JSON_stringify_totalSize co (Finite (max 0 (to_double (n + d)))))\<rparr>)"
    then show ?thesis
      by (simp add: ledger_nonneg_def persisted_totalSize_def)
  qed
qed

lemma run_updates_nonneg:
  "ledger_nonneg s \<Longrightarrow> t \<in> set (run_updates co ds s) \<Longrightarrow> ledger_nonneg t"
proof (induction ds arbitrary: s)
  case Nil
  then show ?case by simp
next
  case (Cons d ds)
  let ?s' = "case updateCumulativeSize co d s of Inl e \<Rightarrow> s | Inr (n, u) \<Rightarrow> u"
  have step: "ledger_nonneg ?s'"
    using Cons.prems(1) by (rule updateCumulativeSize_keeps_nonneg)
  from Cons.prems(2) have "t = ?s' \<or> t \<in> set (run_updates co ds ?s')"
    by (simp add: Let_def)
  then show ?case
    using step Cons.IH [OF step] by blast
qed

section \<open>Properties of the upload pipeline\<close>

lemma take_length_eq_prefix: "take (length pat) s = pat \<longleftrightarrow> (\<exists>ss. s = pat @ ss)"
proof
  assume "take (length pat) s = pat"
  then have "s = pat @ drop (length pat) s"
    by (metis append_take_drop_id)
  then show "\<exists>ss. s = pat @ ss" ..
next
  assume "\<exists>ss. s = pat @ ss"
  then show "take (length pat) s = pat" by auto
qed

lemma regex_test_substring: "regex_test pat s \<longleftrightarrow> (\<exists>ps ss. s = ps @ pat @ ss)"
proof (induction s)
  case Nil
  show ?case by auto
next
  case (Cons c cs)
  show ?case
  proof
    assume "regex_test pat (c # cs)"
    then consider "take (length pat) (c # cs) = pat" | "regex_test pat cs" by auto
    then show "\<exists>ps ss. c # cs = ps @ pat @ ss"
    proof cases
      case 1
      then obtain ss where "c # cs = pat @ ss"
        using take_length_eq_prefix by blast
      then have "c # cs = [] @ pat @ ss" by simp
      then show ?thesis by blast
    next
      case 2
      with Cons.IH obtain ps ss where "cs = ps @ pat @ ss" by blast
      then have "c # cs = (c # ps) @ pat @ ss" by simp
      then show ?thesis by blast
    qed
  next
    assume "\<exists>ps ss. c # cs = ps @ pat @ ss"
    then obtain ps ss where eq: "c # cs = ps @ pat @ ss" by blast
    show "regex_test pat (c # cs)"
    proof (cases ps)
      case Nil
      with eq have "take (length pat) (c # cs) = pat"
        using take_length_eq_prefix [of pat "c # cs"] by auto
      then show ?thesis by simp
    next
      case (Cons p ps')
      with eq have "cs = ps' @ pat @ ss" by simp
      with Cons.IH have "regex_test pat cs" by blast
      then show ?thesis by simp
    qed
  qed
qed

lemma fileFilter_iff:
  "fileFilter f = Inr True \<longleftrightarrow>
     regex_test ''pdf'' (mimetype f)
     \<and> regex_test ''pdf'' (toLowerCase (path_extname (originalname f)))"
  by (simp add: fileFilter_def filetypes_def Let_def)

lemma fileFilter_reject:
  "fileFilter f \<noteq> Inr True \<Longrightarrow>
     fileFilter f = Inl (Error ''Invalid file type. Only PDF files are allowed.'')"
  by (simp add: fileFilter_def Let_def split: if_splits)

lemma fileFilter_results:
  "fileFilter f = Inr True
   \<or> fileFilter f = Inl (Error ''Invalid file type. Only PDF files are allowed.'')"
  by (simp add: fileFilter_def Let_def)

lemma extname_a_b_txt: "toLowerCase (path_extname ''a b.txt'') = ''.txt''"
  by (simp add: path_extname_def path_last_portion_def toLowerCase_def lower_char_def)

lemma upload_callback_Failed_unchanged:
  "snd (upload_callback co (Failed e) s) = s"
  by (cases e) (simp_all add: upload_callback_def)

lemma upload_callback_filter_error:
  "upload_callback co (Failed (Error ''Invalid file type. Only PDF files are allowed.'')) s =
     (Responded \<lparr>http_status = 400, payload =
        \<lparr>status = False, status_code = 400,
         message = ''Invalid file type. Only PDF files are accepted.''\<rparr>\<rparr>, s)"
  by (simp add: upload_callback_def)

lemma upload_callback_response_shape:
  "\<exists>r. upload_callback co (Failed e) s = (Responded r, s)
       \<and> status (payload r) = False
       \<and> status_code (payload r) = http_status r
       \<and> (http_status r = 400 \<or> http_status r = 500)"
  by (cases e) (simp_all add: upload_callback_def)

lemma singleUpload_first:
  "singleUpload [f] = Failed e \<Longrightarrow> singleUpload (f # parts) = Failed e"
  by (cases parts) simp_all

lemma singleUpload_reject_type:
  assumes "fieldname f = ''report_pdf''" and "fileFilter f \<noteq> Inr True"
  shows "singleUpload (f # parts) =
           Failed (Error ''Invalid file type. Only PDF files are allowed.'')"
proof -
  from assms(2) have "fileFilter f = Inl (Error ''Invalid file type. Only PDF files are allowed.'')"
    by (rule fileFilter_reject)
  with assms(1)
  have "singleUpload [f] = Failed (Error ''Invalid file type. Only PDF files are allowed.'')"
    by simp
  then show ?thesis by (rule singleUpload_first)
qed

lemma singleUpload_oversize:
  assumes "fieldname f = ''report_pdf''" and "fileFilter f = Inr True"
    and "fileSize_limit < size_bytes f"
  shows "singleUpload (f # parts) = Failed (MulterError ''LIMIT_FILE_SIZE'' ''File too large'')"
proof -
  from assms have "singleUpload [f] = Failed (MulterError ''LIMIT_FILE_SIZE'' ''File too large'')"
    by simp
  then show ?thesis by (rule singleUpload_first)
qed

lemma singleUpload_wrong_field:
  assumes "fieldname f \<noteq> ''report_pdf''"
  shows "singleUpload (f # parts) =
           Failed (MulterError ''LIMIT_UNEXPECTED_FILE'' ''Unexpected field'')"
proof -
  from assms
  have "singleUpload [f] = Failed (MulterError ''LIMIT_UNEXPECTED_FILE'' ''Unexpected field'')"
    by simp
  then show ?thesis by (rule singleUpload_first)
qed

lemma singleUpload_valid:
  assumes "fieldname f = ''report_pdf''" and "fileFilter f = Inr True"
    and "size_bytes f \<le> fileSize_limit"
  shows "singleUpload [f] = Stored (Some f)"
  using assms by simp

lemma upload_callback_status_400:
  assumes "e = Error ''Invalid file type. Only PDF files are allowed.'' \<or> (\<exists>c m. e = MulterError c m)"
  shows "\<exists>r. upload_callback co (Failed e) s = (Responded r, s) \<and> http_status r = 400"
  using assms by (auto simp: upload_callback_def)

lemma fileFilter_report_upload: "fileFilter report_upload = Inr True"
  by (simp add: report_upload_def fileFilter_def filetypes_def path_extname_def
      path_last_portion_def toLowerCase_def lower_char_def)

lemma fileFilter_oversized_upload: "fileFilter oversized_upload = Inr True"
  by (simp add: oversized_upload_def fileFilter_def filetypes_def path_extname_def
      path_last_portion_def toLowerCase_def lower_char_def)

lemma fileFilter_forged_upload:
  "fileFilter forged_upload = Inl (Error ''Invalid file type. Only PDF files are allowed.'')"
  by (simp add: forged_upload_def fileFilter_def filetypes_def path_extname_def
      path_last_portion_def toLowerCase_def lower_char_def)

lemma upload_callback_Stored:
  assumes "getCumulativeSize s = Num n" and "0 < size_bytes f"
  shows "(\<exists>e. fault s WriteFile CUMULATIVE_SIZE_FILE = Some e
              \<and> upload_callback co (Stored (Some f)) s = (Rejected (SystemError e), s))
         \<or> (fault s WriteFile CUMULATIVE_SIZE_FILE = None
              \<and> upload_callback co (Stored (Some f)) s =
                  (Next, s\<lparr>files := (files s)(CUMULATIVE_SIZE_FILE \<mapsto>
                     JSON_stringify_totalSize co
                       (Finite (max 0 (to_double (n + int (size_bytes f))))))\<rparr>))"
  using updateCumulativeSize_cases [OF assms(1), of co "int (size_bytes f)"] assms(2)
  by (auto simp: upload_callback_def)

lemma ledger_nonneg_holding_700: "ledger_nonneg (ledger_holding 700)"
  by (simp add: ledger_nonneg_def persisted_totalSize_def ledger_holding_def empty_fs_def)

lemma getCumulativeSize_holding_700: "getCumulativeSize (ledger_holding 700) = Num 700"
  by (simp add: ledger_holding_def empty_fs_def getCumulativeSize_def
      getCumulativeSize_try_def readFile_def JSON_parse_def js_or_def)


lemma fileFilter_tiny_upload: "fileFilter tiny_upload = Inr True"
  by (simp add: tiny_upload_def fileFilter_def filetypes_def path_extname_def
      path_last_portion_def toLowerCase_def lower_char_def)

lemma fileFilter_file_object_iff:
  "fileFilter (file_object p) = Inr True \<longleftrightarrow>
     regex_test ''pdf'' (toLowerCase (declared_type p))
     \<and> regex_test ''pdf'' (toLowerCase (path_extname (declared_filename p)))"
  by (simp add: fileFilter_iff file_object_def)

section \<open>Properties of the deletion\<close>

lemma getCumulativeSize_cong:
  assumes "files t CUMULATIVE_SIZE_FILE = files s CUMULATIVE_SIZE_FILE"
    and "fault t = fault s"
  shows "getCumulativeSize t = getCumulativeSize s"
proof -
  have "readFile t CUMULATIVE_SIZE_FILE = readFile s CUMULATIVE_SIZE_FILE"
    unfolding readFile_def assms by (rule refl)
  then show ?thesis
    by (simp only: getCumulativeSize_def getCumulativeSize_try_def)
qed

lemma unlink_result:
  assumes "unlink s p = Inr s1"
  shows "s1 = s\<lparr>files := (files s)(p := None)\<rparr> \<and> files s p \<noteq> None
         \<and> fault s Unlink p = None"
  using assms by (auto simp: unlink_def split: option.splits)

lemma stat_result:
  assumes "stat s p = Inr sz"
  shows "\<exists>f. files s p = Some f \<and> sz = length (bytes f) \<and> fault s Stat p = None"
  using assms by (auto simp: stat_def split: option.splits)

lemma resolve_ledger: "resolve s CUMULATIVE_SIZE_FILE = CUMULATIVE_SIZE_FILE"
  by (simp add: resolve_def)

lemma deleteReportFile_True_iff:
  "fst (deleteReportFile co p s) \<longleftrightarrow>
     (\<exists>sz s1 r s2. stat s (resolve s p) = Inr sz \<and> unlink s (resolve s p) = Inr s1
        \<and> updateCumulativeSize co (- int sz) s1 = Inr (r, s2))"
  by (auto simp: deleteReportFile_def split: sum.splits)

lemma deleteReportFile_True_state:
  assumes "deleteReportFile co p s = (True, s')"
  shows "\<exists>sz s1 r. stat s (resolve s p) = Inr sz \<and> unlink s (resolve s p) = Inr s1
        \<and> updateCumulativeSize co (- int sz) s1 = Inr (r, s')"
  using assms by (auto simp: deleteReportFile_def split: sum.splits)

text \<open>The deletion, step by step, when the three steps succeed.\<close>

lemma deleteReportFile_steps:
  assumes "stat s (resolve s p) = Inr sz"
    and "unlink s (resolve s p) = Inr s1"
    and "updateCumulativeSize co (- int sz) s1 = Inr (r, s2)"
  shows "deleteReportFile co p s = (True, s2)"
  using assms by (simp add: deleteReportFile_def)

lemma deleteReportFile_Num:
  assumes "resolve s p = q" and "files s q = Some f"
    and "fault s Stat q = None" and "fault s Unlink q = None"
    and "getCumulativeSize (s\<lparr>files := (files s)(q := None)\<rparr>) = Num n"
    and "fault s WriteFile CUMULATIVE_SIZE_FILE = None"
  shows "deleteReportFile co p s =
           (True, s\<lparr>files := ((files s)(q := None))(CUMULATIVE_SIZE_FILE \<mapsto>
              JSON_stringify_totalSize co
                (Finite (max 0 (to_double (n + - int (length (bytes f)))))))\<rparr>)"
proof (rule deleteReportFile_steps)
  show "stat s (resolve s p) = Inr (length (bytes f))"
    using assms(1,2,3) by (simp add: stat_def)
  show "unlink s (resolve s p) = Inr (s\<lparr>files := (files s)(q := None)\<rparr>)"
    using assms(1,2,4) by (simp add: unlink_def)
  have w: "fault (s\<lparr>files := (files s)(q := None)\<rparr>) WriteFile CUMULATIVE_SIZE_FILE = None"
    using assms(6) by simp
  show "updateCumulativeSize co (- int (length (bytes f))) (s\<lparr>files := (files s)(q := None)\<rparr>) =
          Inr (Finite (max 0 (to_double (n + - int (length (bytes f))))),
               s\<lparr>files := ((files s)(q := None))(CUMULATIVE_SIZE_FILE \<mapsto>
                  JSON_stringify_totalSize co
                    (Finite (max 0 (to_double (n + - int (length (bytes f)))))))\<rparr>)"
    using updateCumulativeSize_Num [OF assms(5) w, of co "- int (length (bytes f))"]
    by simp
qed

lemma deleteReportFile_Str:
  assumes "resolve s p = q" and "files s q = Some f"
    and "fault s Stat q = None" and "fault s Unlink q = None"
    and "getCumulativeSize (s\<lparr>files := (files s)(q := None)\<rparr>) = Str t"
    and "starts_with_letter t"
    and "fault s WriteFile CUMULATIVE_SIZE_FILE = None"
  shows "deleteReportFile co p s =
           (True, s\<lparr>files := ((files s)(q := None))(CUMULATIVE_SIZE_FILE \<mapsto>
              JSON_stringify_totalSize co NaN)\<rparr>)"
proof (rule deleteReportFile_steps)
  show "stat s (resolve s p) = Inr (length (bytes f))"
    using assms(1,2,3) by (simp add: stat_def)
  show "unlink s (resolve s p) = Inr (s\<lparr>files := (files s)(q := None)\<rparr>)"
    using assms(1,2,4) by (simp add: unlink_def)
  have w: "fault (s\<lparr>files := (files s)(q := None)\<rparr>) WriteFile CUMULATIVE_SIZE_FILE = None"
    using assms(7) by simp
  show "updateCumulativeSize co (- int (length (bytes f))) (s\<lparr>files := (files s)(q := None)\<rparr>) =
          Inr (NaN, s\<lparr>files := ((files s)(q := None))(CUMULATIVE_SIZE_FILE \<mapsto>
                  JSON_stringify_totalSize co NaN)\<rparr>)"
    using updateCumulativeSize_Str [OF assms(5,6) w, of co "- int (length (bytes f))"]
    by simp
qed

text \<open>The example disks, read.\<close>

lemma ledger_holding_file:
  "files (ledger_holding n) CUMULATIVE_SIZE_FILE = Some (JSON_stringify_totalSize co_NaN (Finite n))"
  by (simp add: ledger_holding_def)

lemma ledger_holding_faults: "fault (ledger_holding n) c p = None"
  by (simp add: ledger_holding_def empty_fs_def)

lemma length_ledger_500: "length (bytes (JSON_stringify_totalSize co_NaN (Finite 500))) = 17"
  by (simp add: Number_toString_def show_int_500)

lemma ledger_removed_reads_0:
  "getCumulativeSize (s\<lparr>files := (files s)(CUMULATIVE_SIZE_FILE := None)\<rparr>) = Num 0"
  by (rule getCumulativeSize_absent) simp

lemma ledger_holding_rewritten:
  "(ledger_holding n)\<lparr>files := ((files (ledger_holding n))(CUMULATIVE_SIZE_FILE := None))
       (CUMULATIVE_SIZE_FILE \<mapsto> JSON_stringify_totalSize co_NaN (Finite m))\<rparr> = ledger_holding m"
  by (simp add: ledger_holding_def)

lemma delete_ledger_500:
  "deleteReportFile co_NaN CUMULATIVE_SIZE_FILE (ledger_holding 500) = (True, ledger_holding 0)"
proof -
  have "max 0 (to_double (0 + - int 17)) = 0"
    by (simp add: to_double_exact)
  then show ?thesis
    using deleteReportFile_Num [where co = co_NaN and s = "ledger_holding 500"
        and p = CUMULATIVE_SIZE_FILE, OF resolve_ledger ledger_holding_file
        ledger_holding_faults ledger_holding_faults ledger_removed_reads_0
        ledger_holding_faults]
    by (simp only: length_ledger_500 ledger_holding_rewritten)
qed

lemma delete_aliased_ledger:
  "deleteReportFile co_NaN ''cumulativeSize.json'' ledger_500_aliased =
     (True, ledger_500_aliased\<lparr>files := ((files ledger_500_aliased)(CUMULATIVE_SIZE_FILE := None))
        (CUMULATIVE_SIZE_FILE \<mapsto> JSON_stringify_totalSize co_NaN (Finite 0))\<rparr>)"
proof -
  have rs: "resolve ledger_500_aliased ''cumulativeSize.json'' = CUMULATIVE_SIZE_FILE"
    by (simp add: resolve_def ledger_500_aliased_def)
  have fl: "files ledger_500_aliased CUMULATIVE_SIZE_FILE =
              Some (JSON_stringify_totalSize co_NaN (Finite 500))"
    by (simp add: ledger_500_aliased_def ledger_holding_def)
  have ft: "\<And>c p. fault ledger_500_aliased c p = None"
    by (simp add: ledger_500_aliased_def ledger_holding_def empty_fs_def)
  have "max 0 (to_double (0 + - int 17)) = 0"
    by (simp add: to_double_exact)
  then show ?thesis
    using deleteReportFile_Num [where co = co_NaN, OF rs fl ft ft ledger_removed_reads_0 ft]
    by (simp only: length_ledger_500)
qed

section \<open>Properties of the storage file name\<close>

lemma Math_round_bounds:
  assumes "0 \<le> r" and "r < 1"
  shows "0 \<le> Math_round (r * 1000000000) \<and> Math_round (r * 1000000000) \<le> 1000000000"
proof -
  have "0 \<le> r * 1000000000 + 1 / 2" using assms(1) by simp
  then have lo: "0 \<le> \<lfloor>r * 1000000000 + 1 / 2\<rfloor>" by simp
  have "r * 1000000000 + 1 / 2 < 1000000000 + 1" using assms(2) by simp
  then have "\<lfloor>r * 1000000000 + 1 / 2\<rfloor> < 1000000000 + 1"
    by (simp add: floor_less_iff)
  with lo show ?thesis by (simp add: Math_round_def)
qed

section \<open>Claims about the ledger\<close>

text \<open>
  C6. \<^verbatim>\<open>getCumulativeSize\<close> never raises: every error of its \<^verbatim>\<open>try\<close> block is caught and
  becomes 0. It returns 0 on a missing ledger file, on one that cannot be read and on one
  that is not JSON, the three cases giving the same value; on a ledger document whose
  \<^verbatim>\<open>totalSize\<close> is an integer it returns that integer. The last part says what it returns
  on any document at all: the member if it is truthy, 0 otherwise.
\<close>

theorem getCumulativeSize_fallback:
  "(files s CUMULATIVE_SIZE_FILE = None \<longrightarrow> getCumulativeSize s = Num 0)
   \<and> (\<forall>e. fault s ReadFile CUMULATIVE_SIZE_FILE = Some e \<longrightarrow> getCumulativeSize s = Num 0)
   \<and> (\<forall>f. files s CUMULATIVE_SIZE_FILE = Some f \<and> json f = None
          \<longrightarrow> getCumulativeSize s = Num 0)
   \<and> (\<forall>f kvs n. fault s ReadFile CUMULATIVE_SIZE_FILE = None
          \<and> files s CUMULATIVE_SIZE_FILE = Some f
          \<and> json f = Some (Obj kvs)
          \<and> map_of (rev kvs) ''totalSize'' = Some (Num n)
          \<longrightarrow> getCumulativeSize s = Num n)
   \<and> (\<forall>f doc. fault s ReadFile CUMULATIVE_SIZE_FILE = None
          \<and> files s CUMULATIVE_SIZE_FILE = Some f
          \<and> json f = Some doc
          \<longrightarrow> getCumulativeSize s =
                (case member_totalSize doc of
                   Inl e \<Rightarrow> Num 0
                 | Inr v \<Rightarrow> if truthy v then v else Num 0))"
proof (intro conjI allI impI)
  assume "files s CUMULATIVE_SIZE_FILE = None"
  then show "getCumulativeSize s = Num 0" by (rule getCumulativeSize_absent)
next
  fix e assume "fault s ReadFile CUMULATIVE_SIZE_FILE = Some e"
  then show "getCumulativeSize s = Num 0" by (rule getCumulativeSize_unreadable)
next
  fix f assume "files s CUMULATIVE_SIZE_FILE = Some f \<and> json f = None"
  then show "getCumulativeSize s = Num 0" by (simp add: getCumulativeSize_unparsable)
next
  fix f kvs n
  assume "fault s ReadFile CUMULATIVE_SIZE_FILE = None
          \<and> files s CUMULATIVE_SIZE_FILE = Some f
          \<and> json f = Some (Obj kvs)
          \<and> map_of (rev kvs) ''totalSize'' = Some (Num n)"
  then have "getCumulativeSize s = js_or (Num n) (Num 0)"
    by (simp add: getCumulativeSize_member)
  then show "getCumulativeSize s = Num n" by (simp add: js_or_Num)
next
  fix f doc
  assume "fault s ReadFile CUMULATIVE_SIZE_FILE = None
          \<and> files s CUMULATIVE_SIZE_FILE = Some f
          \<and> json f = Some doc"
  then show "getCumulativeSize s =
                (case member_totalSize doc of
                   Inl e \<Rightarrow> Num 0
                 | Inr v \<Rightarrow> if truthy v then v else Num 0)"
    by (simp add: getCumulativeSize_document)
qed

theorem getCumulativeSize_fallback_witness:
  "getCumulativeSize empty_fs = Num 0
   \<and> getCumulativeSize unreadable_fs = Num 0
   \<and> getCumulativeSize corrupt_fs = Num 0
   \<and> getCumulativeSize (ledger_holding 500) = Num 500"
  using getCumulativeSize_fallback [of empty_fs]
    getCumulativeSize_fallback [of unreadable_fs]
    getCumulativeSize_fallback [of corrupt_fs]
    getCumulativeSize_fallback [of "ledger_holding 500"]
  by (simp add: empty_fs_def unreadable_fs_def corrupt_fs_def ledger_holding_def)

text \<open>
  C1, as the claim states it for every delta and every prior ledger state, fails in three
  ways. On a ledger holding \<open>2^53\<close>, \<^verbatim>\<open>updateCumulativeSize(1)\<close> returns and writes \<open>2^53\<close>
  again, the sum \<open>2^53 + 1\<close> not being a double. On a ledger whose \<^verbatim>\<open>totalSize\<close> is the
  string \<^verbatim>\<open>"abc"\<close>, the read returns that string, the sum is the string \<^verbatim>\<open>"abc500"\<close>, and
  the call returns \<^verbatim>\<open>NaN\<close> and writes \<^verbatim>\<open>{"totalSize":null}\<close>, whatever the conversions left
  open are. On a ledger whose write is refused, the call rejects: it returns no total and
  writes nothing.
\<close>

theorem updateCumulativeSize_adjust_counterexample:
  \<open>getCumulativeSize (ledger_holding 9007199254740992) = Num 9007199254740992
   \<and> updateCumulativeSize co_NaN 1 (ledger_holding 9007199254740992) =
       Inr (Finite 9007199254740992, ledger_holding 9007199254740992)
   \<and> max 0 (9007199254740992 + 1) \<noteq> (9007199254740992 :: int)
   \<and> getCumulativeSize abc_ledger = Str ''abc''
   \<and> updateCumulativeSize co_zero 500 abc_ledger =
       Inr (NaN, abc_ledger\<lparr>files := (files abc_ledger)(CUMULATIVE_SIZE_FILE \<mapsto>
              \<lparr>bytes = ''{"totalSize":null}'',
               json = Some (Obj [(''totalSize'', Null)])\<rparr>)\<rparr>)
   \<and> updateCumulativeSize co_NaN 500 readonly_ledger = Inl (SystemError EACCES)\<close>
proof -
  have r: "getCumulativeSize (ledger_holding 9007199254740992) = Num 9007199254740992"
    by (simp add: ledger_holding_def empty_fs_def getCumulativeSize_def
        getCumulativeSize_try_def readFile_def JSON_parse_def js_or_def)
  have w: "fault (ledger_holding 9007199254740992) WriteFile CUMULATIVE_SIZE_FILE = None"
    by (simp add: ledger_holding_def empty_fs_def)
  have u: "updateCumulativeSize co_NaN 1 (ledger_holding 9007199254740992) =
       Inr (Finite 9007199254740992, ledger_holding 9007199254740992)"
    using updateCumulativeSize_Num [OF r w, of co_NaN 1]
    by (simp add: to_double_above_2_53 ledger_holding_def)
  have ra: "getCumulativeSize abc_ledger = Str ''abc''"
    by (simp add: abc_ledger_def empty_fs_def getCumulativeSize_def
        getCumulativeSize_try_def readFile_def JSON_parse_def js_or_def)
  have wa: "fault abc_ledger WriteFile CUMULATIVE_SIZE_FILE = None"
    by (simp add: abc_ledger_def empty_fs_def)
  have la: "starts_with_letter ''abc''"
    by (simp add: starts_with_letter_def)
  have ua: \<open>updateCumulativeSize co_zero 500 abc_ledger =
       Inr (NaN, abc_ledger\<lparr>files := (files abc_ledger)(CUMULATIVE_SIZE_FILE \<mapsto>
              \<lparr>bytes = ''{"totalSize":null}'',
               json = Some (Obj [(''totalSize'', Null)])\<rparr>)\<rparr>)\<close>
    using updateCumulativeSize_Str [OF ra la wa, of co_zero 500] by simp
  have rr: "getCumulativeSize readonly_ledger = Num 700"
    by (simp add: readonly_ledger_def ledger_holding_def empty_fs_def getCumulativeSize_def
        getCumulativeSize_try_def readFile_def JSON_parse_def js_or_def)
  have ur: "updateCumulativeSize co_NaN 500 readonly_ledger = Inl (SystemError EACCES)"
    using updateCumulativeSize_cases [OF rr, of co_NaN 500]
    by (simp add: readonly_ledger_def)
  from r u ra ua ur show ?thesis by simp
qed

text \<open>
  C1, amended. For every ledger state that reads as an integer \<open>n\<close> (a missing, unreadable
  or non-JSON ledger reads as 0) and every integer delta, with \<open>n\<close>, delta and \<open>n + delta\<close>
  safe integers (at most \<open>2^53 - 1\<close> in magnitude), and provided that the write of the
  ledger file is not refused, \<^verbatim>\<open>updateCumulativeSize(delta)\<close> returns \<open>max 0 (n + delta)\<close> and
  leaves the ledger file holding exactly the text \<^verbatim>\<open>{"totalSize":N}\<close> of that total,
  whatever it held before, every other file untouched. From a missing ledger whose write
  is not refused the read is 0, \<^verbatim>\<open>adjust(500)\<close> leaves \<^verbatim>\<open>{"totalSize":500}\<close> and a following
  \<^verbatim>\<open>adjust(-800)\<close> leaves \<^verbatim>\<open>{"totalSize":0}\<close>.
\<close>

theorem updateCumulativeSize_adjust:
  \<open>(\<forall>n. getCumulativeSize s = Num n
        \<and> isSafeInteger n \<and> isSafeInteger delta \<and> isSafeInteger (n + delta)
        \<and> fault s WriteFile CUMULATIVE_SIZE_FILE = None
        \<longrightarrow> updateCumulativeSize co delta s =
              Inr (Finite (max 0 (n + delta)),
                   s\<lparr>files := (files s)(CUMULATIVE_SIZE_FILE \<mapsto>
                        \<lparr>bytes = ''{"totalSize":'' @ show_int (max 0 (n + delta)) @ ''}'',
                         json = Some (Obj [(''totalSize'', Num (max 0 (n + delta)))])\<rparr>)\<rparr>))
   \<and> (files s CUMULATIVE_SIZE_FILE = None \<and> fault s WriteFile CUMULATIVE_SIZE_FILE = None
        \<longrightarrow> getCumulativeSize s = Num 0
            \<and> (\<exists>s1 s2. updateCumulativeSize co 500 s = Inr (Finite 500, s1)
                 \<and> map_option bytes (files s1 CUMULATIVE_SIZE_FILE) = Some ''{"totalSize":500}''
                 \<and> updateCumulativeSize co (- 800) s1 = Inr (Finite 0, s2)
                 \<and> map_option bytes (files s2 CUMULATIVE_SIZE_FILE) = Some ''{"totalSize":0}''))\<close>
proof (intro conjI allI impI)
  fix n
  assume a: "getCumulativeSize s = Num n
        \<and> isSafeInteger n \<and> isSafeInteger delta \<and> isSafeInteger (n + delta)
        \<and> fault s WriteFile CUMULATIVE_SIZE_FILE = None"
  then have td: "to_double (n + delta) = n + delta"
    by (simp add: to_double_safe)
  from a have "isSafeInteger (max 0 (n + delta))"
    by (simp add: isSafeInteger_max0)
  then have st: \<open>JSON_stringify_totalSize co (Finite (max 0 (n + delta))) =
           \<lparr>bytes = ''{"totalSize":'' @ show_int (max 0 (n + delta)) @ ''}'',
            json = Some (Obj [(''totalSize'', Num (max 0 (n + delta)))])\<rparr>\<close>
    by (rule stringify_safe)
  from a have "updateCumulativeSize co delta s =
           Inr (Finite (max 0 (to_double (n + delta))),
                s\<lparr>files := (files s)(CUMULATIVE_SIZE_FILE \<mapsto>
                     JSON_stringify_totalSize co (Finite (max 0 (to_double (n + delta)))))\<rparr>)"
    by (simp only: updateCumulativeSize_Num)
  then show \<open>updateCumulativeSize co delta s =
              Inr (Finite (max 0 (n + delta)),
                   s\<lparr>files := (files s)(CUMULATIVE_SIZE_FILE \<mapsto>
                        \<lparr>bytes = ''{"totalSize":'' @ show_int (max 0 (n + delta)) @ ''}'',
                         json = Some (Obj [(''totalSize'', Num (max 0 (n + delta)))])\<rparr>)\<rparr>)\<close>
    by (simp only: td st)
next
  assume a: "files s CUMULATIVE_SIZE_FILE = None \<and> fault s WriteFile CUMULATIVE_SIZE_FILE = None"
  then show "getCumulativeSize s = Num 0" by (simp add: getCumulativeSize_absent)
next
  assume a: "files s CUMULATIVE_SIZE_FILE = None \<and> fault s WriteFile CUMULATIVE_SIZE_FILE = None"
  then have r0: "getCumulativeSize s = Num 0" by (simp add: getCumulativeSize_absent)
  define s1 where
    "s1 = s\<lparr>files := (files s)(CUMULATIVE_SIZE_FILE \<mapsto>
             JSON_stringify_totalSize co (Finite 500))\<rparr>"
  have w0: "fault s WriteFile CUMULATIVE_SIZE_FILE = None" using a by simp
  have u1: "updateCumulativeSize co 500 s = Inr (Finite 500, s1)"
    using updateCumulativeSize_Num [OF r0 w0, of co 500]
    by (simp add: s1_def to_double_exact)
  have b1: \<open>map_option bytes (files s1 CUMULATIVE_SIZE_FILE) = Some ''{"totalSize":500}''\<close>
    by (simp add: s1_def show_int_500 Number_toString_def)
  obtain m where r1: "getCumulativeSize s1 = Num m" and m: "m = 500 \<or> m = 0"
    using getCumulativeSize_after_write [of s co 500] by (auto simp: s1_def)
  have w1: "fault s1 WriteFile CUMULATIVE_SIZE_FILE = None"
    using a by (simp add: s1_def)
  define s2 where
    "s2 = s1\<lparr>files := (files s1)(CUMULATIVE_SIZE_FILE \<mapsto>
              JSON_stringify_totalSize co (Finite 0))\<rparr>"
  have "max 0 (to_double (m + (- 800))) = 0" using m by (auto simp: to_double_exact)
  then have u2: "updateCumulativeSize co (- 800) s1 = Inr (Finite 0, s2)"
    using updateCumulativeSize_Num [OF r1 w1, of co "- 800"] by (simp add: s2_def)
  have b2: \<open>map_option bytes (files s2 CUMULATIVE_SIZE_FILE) = Some ''{"totalSize":0}''\<close>
    by (simp add: s2_def show_int_0 Number_toString_def)
  from u1 b1 u2 b2
  show \<open>\<exists>s1 s2. updateCumulativeSize co 500 s = Inr (Finite 500, s1)
                 \<and> map_option bytes (files s1 CUMULATIVE_SIZE_FILE) = Some ''{"totalSize":500}''
                 \<and> updateCumulativeSize co (- 800) s1 = Inr (Finite 0, s2)
                 \<and> map_option bytes (files s2 CUMULATIVE_SIZE_FILE) = Some ''{"totalSize":0}''\<close>
    by blast
qed

theorem updateCumulativeSize_adjust_witness:
  \<open>updateCumulativeSize co_NaN 500 (ledger_holding 700) =
     Inr (Finite 1200,
          (ledger_holding 700)\<lparr>files := (files (ledger_holding 700))(CUMULATIVE_SIZE_FILE \<mapsto>
             \<lparr>bytes = ''{"totalSize":1200}'',
              json = Some (Obj [(''totalSize'', Num 1200)])\<rparr>)\<rparr>)
   \<and> getCumulativeSize empty_fs = Num 0
   \<and> (\<exists>s1 s2. updateCumulativeSize co_NaN 500 empty_fs = Inr (Finite 500, s1)
         \<and> map_option bytes (files s1 CUMULATIVE_SIZE_FILE) = Some ''{"totalSize":500}''
         \<and> updateCumulativeSize co_NaN (- 800) s1 = Inr (Finite 0, s2)
         \<and> map_option bytes (files s2 CUMULATIVE_SIZE_FILE) = Some ''{"totalSize":0}'')\<close>
proof -
  have r: "getCumulativeSize (ledger_holding 700) = Num 700"
    by (simp add: ledger_holding_def empty_fs_def getCumulativeSize_def
        getCumulativeSize_try_def readFile_def JSON_parse_def js_or_def)
  have w: "fault (ledger_holding 700) WriteFile CUMULATIVE_SIZE_FILE = None"
    by (simp add: ledger_holding_def empty_fs_def)
  have sf: "isSafeInteger 700 \<and> isSafeInteger 500 \<and> isSafeInteger (700 + 500)"
    by (simp add: isSafeInteger_def)
  have t: "show_int 1200 = ''1200''"
    by (simp add: show_int_def show_nat.simps)
  have e: "files empty_fs CUMULATIVE_SIZE_FILE = None
           \<and> fault empty_fs WriteFile CUMULATIVE_SIZE_FILE = None"
    by (simp add: empty_fs_def)
  have A: \<open>updateCumulativeSize co_NaN 500 (ledger_holding 700) =
     Inr (Finite 1200,
          (ledger_holding 700)\<lparr>files := (files (ledger_holding 700))(CUMULATIVE_SIZE_FILE \<mapsto>
             \<lparr>bytes = ''{"totalSize":1200}'',
              json = Some (Obj [(''totalSize'', Num 1200)])\<rparr>)\<rparr>)\<close>
    using updateCumulativeSize_adjust
            [of "ledger_holding 700" 500 co_NaN, THEN conjunct1, rule_format, of 700] r w sf
    by (simp add: t)
  note B = updateCumulativeSize_adjust [of empty_fs 0 co_NaN, THEN conjunct2, rule_format, OF e]
  from A B show ?thesis by blast
qed

text \<open>
  C3. The total on disk never goes negative. From a ledger whose total on disk is a
  non-negative integer (or that holds none: a missing or unparsable file), the state after
  each call of any sequence of calls of \<^verbatim>\<open>updateCumulativeSize\<close>, with any integer deltas
  and whether or not a call fails, again holds a non-negative total. Every call that returns
  returns a non-negative integer and has written exactly it. On a ledger that reads 0,
  \<^verbatim>\<open>adjust(-1000)\<close> returns and writes 0.
\<close>

theorem ledger_never_negative:
  "(ledger_nonneg s \<longrightarrow> (\<forall>t \<in> set (run_updates co ds s). ledger_nonneg t))
   \<and> (\<forall>r t. ledger_nonneg s \<and> updateCumulativeSize co d s = Inr (r, t)
         \<longrightarrow> (\<exists>n. 0 \<le> n \<and> r = Finite n \<and> persisted_totalSize t = Some (Num n)))
   \<and> (getCumulativeSize s = Num 0 \<and> fault s WriteFile CUMULATIVE_SIZE_FILE = None
         \<longrightarrow> (\<exists>t. updateCumulativeSize co (- 1000) s = Inr (Finite 0, t)
               \<and> persisted_totalSize t = Some (Num 0)))"
proof (intro conjI allI impI ballI)
  fix t
  assume "ledger_nonneg s" and "t \<in> set (run_updates co ds s)"
  then show "ledger_nonneg t" by (rule run_updates_nonneg)
next
  fix r t
  assume a: "ledger_nonneg s \<and> updateCumulativeSize co d s = Inr (r, t)"
  then obtain n where n: "0 \<le> n" "getCumulativeSize s = Num n"
    using ledger_nonneg_read by blast
  from updateCumulativeSize_cases [OF n(2), of co d] a
  have r: "r = Finite (max 0 (to_double (n + d)))"
    and t: "t = s\<lparr>files := (files s)(CUMULATIVE_SIZE_FILE \<mapsto>
                 JSON_stringify_totalSize co (Finite (max 0 (to_double (n + d)))))\<rparr>"
    by auto
  have "persisted_totalSize t = Some (Num (max 0 (to_double (n + d))))"
    unfolding t by (rule persisted_after_write)
  with r have "0 \<le> max 0 (to_double (n + d)) \<and> r = Finite (max 0 (to_double (n + d)))
             \<and> persisted_totalSize t = Some (Num (max 0 (to_double (n + d))))"
    by simp
  then show "\<exists>n. 0 \<le> n \<and> r = Finite n \<and> persisted_totalSize t = Some (Num n)"
    by blast
next
  assume a: "getCumulativeSize s = Num 0 \<and> fault s WriteFile CUMULATIVE_SIZE_FILE = None"
  then have "updateCumulativeSize co (- 1000) s =
               Inr (Finite 0, s\<lparr>files := (files s)(CUMULATIVE_SIZE_FILE \<mapsto>
                      JSON_stringify_totalSize co (Finite 0))\<rparr>)"
    using updateCumulativeSize_Num [of s 0 co "- 1000"] by (simp add: to_double_exact)
  moreover have "persisted_totalSize (s\<lparr>files := (files s)(CUMULATIVE_SIZE_FILE \<mapsto>
                      JSON_stringify_totalSize co (Finite 0))\<rparr>) = Some (Num 0)"
    by (rule persisted_after_write)
  ultimately show "\<exists>t. updateCumulativeSize co (- 1000) s = Inr (Finite 0, t)
               \<and> persisted_totalSize t = Some (Num 0)"
    by blast
qed

theorem ledger_never_negative_witness:
  "ledger_nonneg empty_fs
   \<and> list_all ledger_nonneg (run_updates co_NaN [- 1000, 500, - 800] empty_fs)
   \<and> (\<exists>t. updateCumulativeSize co_NaN (- 1000) empty_fs = Inr (Finite 0, t)
         \<and> persisted_totalSize t = Some (Num 0))"
proof -
  have i: "ledger_nonneg empty_fs"
    by (simp add: ledger_nonneg_def persisted_totalSize_def empty_fs_def)
  have z: "getCumulativeSize empty_fs = Num 0
           \<and> fault empty_fs WriteFile CUMULATIVE_SIZE_FILE = None"
    by (simp add: getCumulativeSize_absent empty_fs_def)
  note T = ledger_never_negative [of empty_fs co_NaN "[- 1000, 500, - 800]" "- 1000"]
  from T i have "\<forall>t \<in> set (run_updates co_NaN [- 1000, 500, - 800] empty_fs). ledger_nonneg t"
    by blast
  then have "list_all ledger_nonneg (run_updates co_NaN [- 1000, 500, - 800] empty_fs)"
    by (simp only: list_all_iff)
  moreover from T z
  have "\<exists>t. updateCumulativeSize co_NaN (- 1000) empty_fs = Inr (Finite 0, t)
         \<and> persisted_totalSize t = Some (Num 0)"
    by blast
  ultimately show ?thesis using i by blast
qed

section \<open>Claims about the upload pipeline\<close>

text \<open>
  C4. For every file part of an upload, the file filter accepts the file object that the
  parser builds for it if and only if the declared MIME type, in any letter case, contains
  \<^verbatim>\<open>pdf\<close> and the extension of the file name, in any letter case, contains \<^verbatim>\<open>pdf\<close>: both
  matches are unanchored substring matches without regard to case, the one on the MIME
  type because the parser reports the type in lower case, the one on the extension because
  the filter lower-cases it. Every other file is rejected with the filter's error; a file
  named \<^verbatim>\<open>a b.txt\<close> is rejected whatever MIME type it declares.
\<close>

theorem fileFilter_accepts:
  "(fileFilter (file_object p) = Inr True \<longleftrightarrow>
      (\<exists>a b. toLowerCase (declared_type p) = a @ ''pdf'' @ b)
      \<and> (\<exists>a b. toLowerCase (path_extname (declared_filename p)) = a @ ''pdf'' @ b))
   \<and> (fileFilter (file_object p) \<noteq> Inr True \<longrightarrow>
        fileFilter (file_object p) =
          Inl (Error ''Invalid file type. Only PDF files are allowed.''))
   \<and> (declared_filename p = ''a b.txt'' \<longrightarrow>
        fileFilter (file_object p) =
          Inl (Error ''Invalid file type. Only PDF files are allowed.''))"
proof (intro conjI impI)
  show "fileFilter (file_object p) = Inr True \<longleftrightarrow>
      (\<exists>a b. toLowerCase (declared_type p) = a @ ''pdf'' @ b)
      \<and> (\<exists>a b. toLowerCase (path_extname (declared_filename p)) = a @ ''pdf'' @ b)"
    by (simp only: fileFilter_file_object_iff regex_test_substring)
next
  assume "fileFilter (file_object p) \<noteq> Inr True"
  then show "fileFilter (file_object p) =
               Inl (Error ''Invalid file type. Only PDF files are allowed.'')"
    by (rule fileFilter_reject)
next
  assume "declared_filename p = ''a b.txt''"
  then have "\<not> regex_test ''pdf'' (toLowerCase (path_extname (declared_filename p)))"
    by (simp add: extname_a_b_txt)
  then have "fileFilter (file_object p) \<noteq> Inr True"
    by (simp add: fileFilter_file_object_iff)
  then show "fileFilter (file_object p) =
               Inl (Error ''Invalid file type. Only PDF files are allowed.'')"
    by (rule fileFilter_reject)
qed

theorem fileFilter_accepts_witness:
  "fileFilter (file_object upper_case_part) = Inr True
   \<and> fileFilter (file_object forged_part) =
       Inl (Error ''Invalid file type. Only PDF files are allowed.'')"
proof -
  have m: "toLowerCase (declared_type upper_case_part) = ''application/'' @ ''pdf'' @ []"
    by (simp add: upper_case_part_def toLowerCase_def lower_char_def)
  have x: "toLowerCase (path_extname (declared_filename upper_case_part))
             = ''.'' @ ''pdf'' @ []"
    by (simp add: upper_case_part_def path_extname_def path_last_portion_def toLowerCase_def
        lower_char_def)
  have "fileFilter (file_object upper_case_part) = Inr True"
    using fileFilter_accepts [of upper_case_part, THEN conjunct1] m x by blast
  moreover have "declared_filename forged_part = ''a b.txt''"
    by (simp add: forged_part_def)
  then have "fileFilter (file_object forged_part) =
               Inl (Error ''Invalid file type. Only PDF files are allowed.'')"
    using fileFilter_accepts [of forged_part] by blast
  ultimately show ?thesis by blast
qed

text \<open>
  C5. Every error that the upload step passes to the callback is answered with the JSON
  body \<^verbatim>\<open>{ status: false, status_code, message }\<close> under the HTTP status equal to
  \<open>status_code\<close>, which is 400 or 500, and nothing else is done. A parser error with the
  code \<^verbatim>\<open>LIMIT_UNEXPECTED_FILE\<close> gives 400 with the fixed single-file message; any other
  parser error gives 400 with the parser's own message; the error of the file filter gives
  400 with the fixed invalid-type message; any other error gives 500 with the generic
  message.
\<close>

theorem upload_error_responses:
  "upload_callback co (Failed (MulterError ''LIMIT_UNEXPECTED_FILE'' msg)) s =
     (Responded \<lparr>http_status = 400, payload =
        \<lparr>status = False, status_code = 400,
         message = ''Only a single file can be uploaded for report_pdf.''\<rparr>\<rparr>, s)
   \<and> (code \<noteq> ''LIMIT_UNEXPECTED_FILE'' \<longrightarrow>
        upload_callback co (Failed (MulterError code msg)) s =
          (Responded \<lparr>http_status = 400, payload =
             \<lparr>status = False, status_code = 400, message = msg\<rparr>\<rparr>, s))
   \<and> (fileFilter f = Inl e \<longrightarrow>
        upload_callback co (Failed e) s =
          (Responded \<lparr>http_status = 400, payload =
             \<lparr>status = False, status_code = 400,
              message = ''Invalid file type. Only PDF files are accepted.''\<rparr>\<rparr>, s))
   \<and> (msg \<noteq> ''Invalid file type. Only PDF files are allowed.'' \<longrightarrow>
        upload_callback co (Failed (Error msg)) s =
          (Responded \<lparr>http_status = 500, payload =
             \<lparr>status = False, status_code = 500,
              message = ''An error occurred during file upload.''\<rparr>\<rparr>, s))
   \<and> (\<exists>r. upload_callback co (Failed e') s = (Responded r, s)
          \<and> status (payload r) = False
          \<and> status_code (payload r) = http_status r
          \<and> (http_status r = 400 \<or> http_status r = 500))"
proof (intro conjI impI)
  show "upload_callback co (Failed (MulterError ''LIMIT_UNEXPECTED_FILE'' msg)) s =
     (Responded \<lparr>http_status = 400, payload =
        \<lparr>status = False, status_code = 400,
         message = ''Only a single file can be uploaded for report_pdf.''\<rparr>\<rparr>, s)"
    by (simp add: upload_callback_def)
next
  assume "code \<noteq> ''LIMIT_UNEXPECTED_FILE''"
  then show "upload_callback co (Failed (MulterError code msg)) s =
          (Responded \<lparr>http_status = 400, payload =
             \<lparr>status = False, status_code = 400, message = msg\<rparr>\<rparr>, s)"
    by (simp add: upload_callback_def)
next
  assume "fileFilter f = Inl e"
  then have "e = Error ''Invalid file type. Only PDF files are allowed.''"
    using fileFilter_results [of f] by auto
  then show "upload_callback co (Failed e) s =
          (Responded \<lparr>http_status = 400, payload =
             \<lparr>status = False, status_code = 400,
              message = ''Invalid file type. Only PDF files are accepted.''\<rparr>\<rparr>, s)"
    by (simp only: upload_callback_filter_error)
next
  assume "msg \<noteq> ''Invalid file type. Only PDF files are allowed.''"
  then show "upload_callback co (Failed (Error msg)) s =
          (Responded \<lparr>http_status = 500, payload =
             \<lparr>status = False, status_code = 500,
              message = ''An error occurred during file upload.''\<rparr>\<rparr>, s)"
    by (simp add: upload_callback_def)
next
  show "\<exists>r. upload_callback co (Failed e') s = (Responded r, s)
          \<and> status (payload r) = False
          \<and> status_code (payload r) = http_status r
          \<and> (http_status r = 400 \<or> http_status r = 500)"
    by (rule upload_callback_response_shape)
qed

theorem upload_error_responses_witness:
  "upload_callback co_NaN (Failed (MulterError ''LIMIT_FILE_SIZE'' ''File too large'')) empty_fs =
     (Responded \<lparr>http_status = 400, payload =
        \<lparr>status = False, status_code = 400, message = ''File too large''\<rparr>\<rparr>, empty_fs)
   \<and> fileFilter forged_upload = Inl (Error ''Invalid file type. Only PDF files are allowed.'')
   \<and> upload_callback co_NaN
        (Failed (Error ''Invalid file type. Only PDF files are allowed.'')) empty_fs =
       (Responded \<lparr>http_status = 400, payload =
          \<lparr>status = False, status_code = 400,
           message = ''Invalid file type. Only PDF files are accepted.''\<rparr>\<rparr>, empty_fs)
   \<and> upload_callback co_NaN (Failed (Error ''ENOSPC: no space left on device'')) empty_fs =
       (Responded \<lparr>http_status = 500, payload =
          \<lparr>status = False, status_code = 500,
           message = ''An error occurred during file upload.''\<rparr>\<rparr>, empty_fs)"
proof -
  have ff: "fileFilter forged_upload = Inl (Error ''Invalid file type. Only PDF files are allowed.'')"
    by (simp add: forged_upload_def fileFilter_def filetypes_def path_extname_def
        path_last_portion_def toLowerCase_def lower_char_def)
  have c: "''LIMIT_FILE_SIZE'' \<noteq> ''LIMIT_UNEXPECTED_FILE''" by simp
  have m: "''ENOSPC: no space left on device'' \<noteq> ''Invalid file type. Only PDF files are allowed.''"
    by simp
  note T1 = upload_error_responses
    [of co_NaN "''File too large''" empty_fs "''LIMIT_FILE_SIZE''" forged_upload
       "Error ''Invalid file type. Only PDF files are allowed.''"]
  note T2 = upload_error_responses
    [of co_NaN "''ENOSPC: no space left on device''" empty_fs "''LIMIT_FILE_SIZE''"
       forged_upload "Error ''Invalid file type. Only PDF files are allowed.''"]
  from T1 c have a1:
    "upload_callback co_NaN (Failed (MulterError ''LIMIT_FILE_SIZE'' ''File too large'')) empty_fs =
     (Responded \<lparr>http_status = 400, payload =
        \<lparr>status = False, status_code = 400, message = ''File too large''\<rparr>\<rparr>, empty_fs)"
    by blast
  from T1 ff have a2:
    "upload_callback co_NaN
        (Failed (Error ''Invalid file type. Only PDF files are allowed.'')) empty_fs =
       (Responded \<lparr>http_status = 400, payload =
          \<lparr>status = False, status_code = 400,
           message = ''Invalid file type. Only PDF files are accepted.''\<rparr>\<rparr>, empty_fs)"
    by blast
  from T2 m have a3:
    "upload_callback co_NaN (Failed (Error ''ENOSPC: no space left on device'')) empty_fs =
       (Responded \<lparr>http_status = 500, payload =
          \<lparr>status = False, status_code = 500,
           message = ''An error occurred during file upload.''\<rparr>\<rparr>, empty_fs)"
    by blast
  from a1 ff a2 a3 show ?thesis by blast
qed

text \<open>
  C8. A rejected upload leaves the ledger as it was. Whatever error the upload step
  passes to the callback, the callback answers and returns the file system unchanged: the
  branch makes no call of \<^verbatim>\<open>updateCumulativeSize\<close>. In particular an upload whose file the
  filter does not accept, or whose file is larger than the limit of 20 MiB, is answered
  with status 400 (the fixed invalid-type message, or the parser's size-limit message) in
  an unchanged state.
\<close>

theorem rejected_upload_keeps_ledger:
  "snd (upload_callback co (Failed e) s) = s
   \<and> (fileFilter f \<noteq> Inr True \<or> fileSize_limit < size_bytes f \<longrightarrow>
        (\<exists>r. handleFileUpload co (f # parts) s = (Responded r, s) \<and> http_status r = 400))
   \<and> (fieldname f = ''report_pdf'' \<and> fileFilter f \<noteq> Inr True \<longrightarrow>
        handleFileUpload co (f # parts) s =
          (Responded \<lparr>http_status = 400, payload =
             \<lparr>status = False, status_code = 400,
              message = ''Invalid file type. Only PDF files are accepted.''\<rparr>\<rparr>, s))
   \<and> (fieldname f = ''report_pdf'' \<and> fileFilter f = Inr True \<and> fileSize_limit < size_bytes f \<longrightarrow>
        handleFileUpload co (f # parts) s =
          (Responded \<lparr>http_status = 400, payload =
             \<lparr>status = False, status_code = 400, message = ''File too large''\<rparr>\<rparr>, s))"
proof (intro conjI impI)
  show "snd (upload_callback co (Failed e) s) = s"
    by (rule upload_callback_Failed_unchanged)
next
  assume rej: "fileFilter f \<noteq> Inr True \<or> fileSize_limit < size_bytes f"
  have "\<exists>e. singleUpload (f # parts) = Failed e
          \<and> (e = Error ''Invalid file type. Only PDF files are allowed.''
               \<or> (\<exists>c m. e = MulterError c m))"
  proof (cases "fieldname f = ''report_pdf''")
    case False
    then show ?thesis by (simp add: singleUpload_wrong_field)
  next
    case True
    show ?thesis
    proof (cases "fileFilter f = Inr True")
      case False
      with True show ?thesis by (simp add: singleUpload_reject_type)
    next
      case accepted: True
      with rej have "fileSize_limit < size_bytes f" by simp
      with True accepted show ?thesis by (simp add: singleUpload_oversize)
    qed
  qed
  then obtain e where "singleUpload (f # parts) = Failed e"
    and "e = Error ''Invalid file type. Only PDF files are allowed.'' \<or> (\<exists>c m. e = MulterError c m)"
    by blast
  then show "\<exists>r. handleFileUpload co (f # parts) s = (Responded r, s) \<and> http_status r = 400"
    unfolding handleFileUpload_def using upload_callback_status_400 [of e co s] by simp
next
  assume "fieldname f = ''report_pdf'' \<and> fileFilter f \<noteq> Inr True"
  then have "singleUpload (f # parts) =
               Failed (Error ''Invalid file type. Only PDF files are allowed.'')"
    by (simp add: singleUpload_reject_type)
  then show "handleFileUpload co (f # parts) s =
          (Responded \<lparr>http_status = 400, payload =
             \<lparr>status = False, status_code = 400,
              message = ''Invalid file type. Only PDF files are accepted.''\<rparr>\<rparr>, s)"
    by (simp only: handleFileUpload_def upload_callback_filter_error)
next
  assume "fieldname f = ''report_pdf'' \<and> fileFilter f = Inr True \<and> fileSize_limit < size_bytes f"
  then have "singleUpload (f # parts) =
               Failed (MulterError ''LIMIT_FILE_SIZE'' ''File too large'')"
    by (simp add: singleUpload_oversize)
  then show "handleFileUpload co (f # parts) s =
          (Responded \<lparr>http_status = 400, payload =
             \<lparr>status = False, status_code = 400, message = ''File too large''\<rparr>\<rparr>, s)"
    by (simp add: handleFileUpload_def upload_callback_def)
qed

theorem rejected_upload_keeps_ledger_witness:
  "handleFileUpload co_NaN [forged_upload] (ledger_holding 700) =
     (Responded \<lparr>http_status = 400, payload =
        \<lparr>status = False, status_code = 400,
         message = ''Invalid file type. Only PDF files are accepted.''\<rparr>\<rparr>, ledger_holding 700)
   \<and> handleFileUpload co_NaN [oversized_upload] (ledger_holding 700) =
     (Responded \<lparr>http_status = 400, payload =
        \<lparr>status = False, status_code = 400, message = ''File too large''\<rparr>\<rparr>,
      ledger_holding 700)"
proof -
  have a: "fieldname forged_upload = ''report_pdf'' \<and> fileFilter forged_upload \<noteq> Inr True"
    by (simp add: fileFilter_forged_upload) (simp add: forged_upload_def)
  have b: "fieldname oversized_upload = ''report_pdf'' \<and> fileFilter oversized_upload = Inr True
           \<and> fileSize_limit < size_bytes oversized_upload"
    by (simp add: fileFilter_oversized_upload) (simp add: oversized_upload_def fileSize_limit_def)
  from a rejected_upload_keeps_ledger
         [of co_NaN "Error ''x''" "ledger_holding 700" forged_upload "[]"]
  have "handleFileUpload co_NaN [forged_upload] (ledger_holding 700) =
     (Responded \<lparr>http_status = 400, payload =
        \<lparr>status = False, status_code = 400,
         message = ''Invalid file type. Only PDF files are accepted.''\<rparr>\<rparr>, ledger_holding 700)"
    by blast
  moreover from b rejected_upload_keeps_ledger
         [of co_NaN "Error ''x''" "ledger_holding 700" oversized_upload "[]"]
  have "handleFileUpload co_NaN [oversized_upload] (ledger_holding 700) =
     (Responded \<lparr>http_status = 400, payload =
        \<lparr>status = False, status_code = 400, message = ''File too large''\<rparr>\<rparr>,
      ledger_holding 700)"
    by blast
  ultimately show ?thesis by blast
qed

text \<open>
  C2, as the claim states it, fails in four ways. A valid PDF of 2048 bytes uploaded while
  the write of the ledger is refused does not pass control downstream: the callback is
  rejected by the write error, no response is sent and \<^verbatim>\<open>next()\<close> is not called. A valid
  PDF of one byte uploaded on a ledger holding \<open>2^53\<close> passes control downstream with the
  ledger still holding \<open>2^53\<close>, the sum \<open>2^53 + 1\<close> not being a double. A valid PDF uploaded
  on a ledger whose \<^verbatim>\<open>totalSize\<close> is the string \<^verbatim>\<open>"abc"\<close> passes control downstream with
  the ledger holding \<^verbatim>\<open>{"totalSize":null}\<close>. A valid PDF of 2048 bytes uploaded on a ledger
  holding \<open>-5000\<close> passes control downstream with the ledger holding 0, the sum being
  clamped: the total went up by 5000.
\<close>

theorem upload_increments_ledger_counterexample:
  \<open>fileFilter report_upload = Inr True
   \<and> size_bytes report_upload \<le> fileSize_limit
   \<and> handleFileUpload co_NaN [report_upload] readonly_ledger =
       (Rejected (SystemError EACCES), readonly_ledger)
   \<and> fileFilter tiny_upload = Inr True
   \<and> size_bytes tiny_upload = 1
   \<and> getCumulativeSize (ledger_holding 9007199254740992) = Num 9007199254740992
   \<and> handleFileUpload co_NaN [tiny_upload] (ledger_holding 9007199254740992) =
       (Next, ledger_holding 9007199254740992)
   \<and> handleFileUpload co_zero [report_upload] abc_ledger =
       (Next, abc_ledger\<lparr>files := (files abc_ledger)(CUMULATIVE_SIZE_FILE \<mapsto>
                \<lparr>bytes = ''{"totalSize":null}'',
                 json = Some (Obj [(''totalSize'', Null)])\<rparr>)\<rparr>)
   \<and> getCumulativeSize (ledger_holding (- 5000)) = Num (- 5000)
   \<and> handleFileUpload co_NaN [report_upload] (ledger_holding (- 5000)) =
       (Next, ledger_holding 0)\<close>
proof -
  have v1: "singleUpload [report_upload] = Stored (Some report_upload)"
    by (rule singleUpload_valid)
       (simp_all add: fileFilter_report_upload, simp_all add: report_upload_def fileSize_limit_def)
  have v2: "singleUpload [tiny_upload] = Stored (Some tiny_upload)"
    by (rule singleUpload_valid)
       (simp_all add: fileFilter_tiny_upload, simp_all add: tiny_upload_def fileSize_limit_def)
  have s1: "0 < size_bytes report_upload" "int (size_bytes report_upload) = 2048"
    by (simp_all add: report_upload_def)
  have s2: "0 < size_bytes tiny_upload" "int (size_bytes tiny_upload) = 1"
    by (simp_all add: tiny_upload_def)
  have rr: "getCumulativeSize readonly_ledger = Num 700"
    by (simp add: readonly_ledger_def ledger_holding_def empty_fs_def getCumulativeSize_def
        getCumulativeSize_try_def readFile_def JSON_parse_def js_or_def)
  have a: "handleFileUpload co_NaN [report_upload] readonly_ledger =
       (Rejected (SystemError EACCES), readonly_ledger)"
  proof -
    have "upload_callback co_NaN (Stored (Some report_upload)) readonly_ledger =
            (Rejected (SystemError EACCES), readonly_ledger)"
      using upload_callback_Stored [OF rr s1(1), of co_NaN]
      by (simp add: readonly_ledger_def)
    then show ?thesis unfolding handleFileUpload_def v1 .
  qed
  have rb: "getCumulativeSize (ledger_holding 9007199254740992) = Num 9007199254740992"
    by (simp add: ledger_holding_def empty_fs_def getCumulativeSize_def
        getCumulativeSize_try_def readFile_def JSON_parse_def js_or_def)
  have b: "handleFileUpload co_NaN [tiny_upload] (ledger_holding 9007199254740992) =
       (Next, ledger_holding 9007199254740992)"
  proof -
    have "upload_callback co_NaN (Stored (Some tiny_upload)) (ledger_holding 9007199254740992) =
            (Next, ledger_holding 9007199254740992)"
      using upload_callback_Stored [OF rb s2(1), of co_NaN]
      by (simp add: s2(2) to_double_above_2_53 ledger_holding_def empty_fs_def)
    then show ?thesis unfolding handleFileUpload_def v2 .
  qed
  have ra: "getCumulativeSize abc_ledger = Str ''abc''"
    by (simp add: abc_ledger_def empty_fs_def getCumulativeSize_def
        getCumulativeSize_try_def readFile_def JSON_parse_def js_or_def)
  have wa: "fault abc_ledger WriteFile CUMULATIVE_SIZE_FILE = None"
    by (simp add: abc_ledger_def empty_fs_def)
  have la: "starts_with_letter ''abc''"
    by (simp add: starts_with_letter_def)
  have c: \<open>handleFileUpload co_zero [report_upload] abc_ledger =
       (Next, abc_ledger\<lparr>files := (files abc_ledger)(CUMULATIVE_SIZE_FILE \<mapsto>
                \<lparr>bytes = ''{"totalSize":null}'',
                 json = Some (Obj [(''totalSize'', Null)])\<rparr>)\<rparr>)\<close>
  proof -
    have \<open>upload_callback co_zero (Stored (Some report_upload)) abc_ledger =
       (Next, abc_ledger\<lparr>files := (files abc_ledger)(CUMULATIVE_SIZE_FILE \<mapsto>
                \<lparr>bytes = ''{"totalSize":null}'',
                 json = Some (Obj [(''totalSize'', Null)])\<rparr>)\<rparr>)\<close>
      using updateCumulativeSize_Str [OF ra la wa, of co_zero "int (size_bytes report_upload)"]
        s1(1)
      by (simp add: upload_callback_def)
    then show ?thesis unfolding handleFileUpload_def v1 .
  qed
  have rn: "getCumulativeSize (ledger_holding (- 5000)) = Num (- 5000)"
    by (simp add: ledger_holding_def empty_fs_def getCumulativeSize_def
        getCumulativeSize_try_def readFile_def JSON_parse_def js_or_def)
  have d: "handleFileUpload co_NaN [report_upload] (ledger_holding (- 5000)) =
       (Next, ledger_holding 0)"
  proof -
    have "upload_callback co_NaN (Stored (Some report_upload)) (ledger_holding (- 5000)) =
            (Next, ledger_holding 0)"
      using upload_callback_Stored [OF rn s1(1), of co_NaN]
      by (simp add: s1(2) to_double_exact ledger_holding_def empty_fs_def)
    then show ?thesis unfolding handleFileUpload_def v1 .
  qed
  have l: "size_bytes report_upload \<le> fileSize_limit" "size_bytes tiny_upload = 1"
    by (simp_all add: report_upload_def tiny_upload_def fileSize_limit_def)
  from fileFilter_report_upload fileFilter_tiny_upload l a rb b c rn d show ?thesis by simp
qed

text \<open>
  C2, amended. Take a ledger that reads as a non-negative integer \<open>n\<close> and an upload that
  the parser has stored, with \<open>n + size\<close> a safe integer (at most \<open>2^53 - 1\<close>), and let \<open>t\<close>
  be the state in which \<open>n + size\<close> has been written to the ledger: there the total on disk
  is \<open>n + size\<close>, and so is the total read back. When the size is positive, the callback
  either passes control to \<^verbatim>\<open>next()\<close> in the state \<open>t\<close>, the increment awaited to completion
  before \<^verbatim>\<open>next()\<close>, or is rejected by the error of the ledger write; it passes control on
  whenever the write is not refused. A file of size 0 passes control on with the ledger
  untouched. For a request whose single file is under \<^verbatim>\<open>report_pdf\<close>, passes the filter and
  is at most 20 MiB, on a ledger whose read and write are not refused, \<^verbatim>\<open>handleFileUpload\<close>
  passes control on and the total read afterwards is \<open>n + size\<close>.
\<close>

theorem upload_increments_ledger:
  assumes "getCumulativeSize s = Num n" and "0 \<le> n"
    and "isSafeInteger (n + int (size_bytes f))"
  shows \<open>\<exists>t. t = s\<lparr>files := (files s)(CUMULATIVE_SIZE_FILE \<mapsto>
              \<lparr>bytes = ''{"totalSize":'' @ show_int (n + int (size_bytes f)) @ ''}'',
               json = Some (Obj [(''totalSize'', Num (n + int (size_bytes f)))])\<rparr>)\<rparr>
     \<and> persisted_totalSize t = Some (Num (n + int (size_bytes f)))
     \<and> (fault s ReadFile CUMULATIVE_SIZE_FILE = None \<longrightarrow>
          getCumulativeSize t = Num (n + int (size_bytes f)))
     \<and> (0 < size_bytes f \<longrightarrow>
          (upload_callback co (Stored (Some f)) s = (Next, t)
            \<or> (\<exists>e. upload_callback co (Stored (Some f)) s = (Rejected e, s)))
          \<and> (fault s WriteFile CUMULATIVE_SIZE_FILE = None \<longrightarrow>
                upload_callback co (Stored (Some f)) s = (Next, t)))
     \<and> (size_bytes f = 0 \<longrightarrow> upload_callback co (Stored (Some f)) s = (Next, s))
     \<and> (fieldname f = ''report_pdf'' \<and> fileFilter f = Inr True
          \<and> size_bytes f \<le> fileSize_limit
          \<and> fault s WriteFile CUMULATIVE_SIZE_FILE = None
          \<and> fault s ReadFile CUMULATIVE_SIZE_FILE = None \<longrightarrow>
          (\<exists>u. handleFileUpload co [f] s = (Next, u)
             \<and> getCumulativeSize u = Num (n + int (size_bytes f))))\<close>
proof -
  define t where
    "t = s\<lparr>files := (files s)(CUMULATIVE_SIZE_FILE \<mapsto>
           JSON_stringify_totalSize co (Finite (n + int (size_bytes f))))\<rparr>"
  have st: \<open>JSON_stringify_totalSize co (Finite (n + int (size_bytes f))) =
           \<lparr>bytes = ''{"totalSize":'' @ show_int (n + int (size_bytes f)) @ ''}'',
            json = Some (Obj [(''totalSize'', Num (n + int (size_bytes f)))])\<rparr>\<close>
    using assms(3) by (rule stringify_safe)
  have mx: "max 0 (to_double (n + int (size_bytes f))) = n + int (size_bytes f)"
    using assms(2,3) by (simp add: to_double_safe)
  have c3: "persisted_totalSize t = Some (Num (n + int (size_bytes f)))"
    unfolding t_def by (rule persisted_after_write)
  have c4: "fault s ReadFile CUMULATIVE_SIZE_FILE = None \<longrightarrow>
          getCumulativeSize t = Num (n + int (size_bytes f))"
    unfolding t_def using getCumulativeSize_after_write_readable [of s] by blast
  have c12: "0 < size_bytes f \<longrightarrow>
          (upload_callback co (Stored (Some f)) s = (Next, t)
            \<or> (\<exists>e. upload_callback co (Stored (Some f)) s = (Rejected e, s)))
          \<and> (fault s WriteFile CUMULATIVE_SIZE_FILE = None \<longrightarrow>
                upload_callback co (Stored (Some f)) s = (Next, t))"
  proof
    assume pos: "0 < size_bytes f"
    note cb = upload_callback_Stored [OF assms(1) pos, of co, unfolded mx, folded t_def]
    have "upload_callback co (Stored (Some f)) s = (Next, t)
            \<or> (\<exists>e. upload_callback co (Stored (Some f)) s = (Rejected e, s))"
      using cb by blast
    moreover have "fault s WriteFile CUMULATIVE_SIZE_FILE = None \<longrightarrow>
                upload_callback co (Stored (Some f)) s = (Next, t)"
      using cb by auto
    ultimately show "(upload_callback co (Stored (Some f)) s = (Next, t)
            \<or> (\<exists>e. upload_callback co (Stored (Some f)) s = (Rejected e, s)))
          \<and> (fault s WriteFile CUMULATIVE_SIZE_FILE = None \<longrightarrow>
                upload_callback co (Stored (Some f)) s = (Next, t))"
      by (rule conjI)
  qed
  have c0: "size_bytes f = 0 \<longrightarrow> upload_callback co (Stored (Some f)) s = (Next, s)"
    by (simp add: upload_callback_def)
  have c5: "fieldname f = ''report_pdf'' \<and> fileFilter f = Inr True
          \<and> size_bytes f \<le> fileSize_limit
          \<and> fault s WriteFile CUMULATIVE_SIZE_FILE = None
          \<and> fault s ReadFile CUMULATIVE_SIZE_FILE = None \<longrightarrow>
          (\<exists>u. handleFileUpload co [f] s = (Next, u)
             \<and> getCumulativeSize u = Num (n + int (size_bytes f)))"
  proof
    assume v: "fieldname f = ''report_pdf'' \<and> fileFilter f = Inr True
          \<and> size_bytes f \<le> fileSize_limit
          \<and> fault s WriteFile CUMULATIVE_SIZE_FILE = None
          \<and> fault s ReadFile CUMULATIVE_SIZE_FILE = None"
    then have "singleUpload [f] = Stored (Some f)"
      by (simp add: singleUpload_valid)
    then have h: "handleFileUpload co [f] s = upload_callback co (Stored (Some f)) s"
      by (simp only: handleFileUpload_def)
    show "\<exists>u. handleFileUpload co [f] s = (Next, u)
             \<and> getCumulativeSize u = Num (n + int (size_bytes f))"
    proof (cases "size_bytes f = 0")
      case True
      with c0 h assms(1) have "handleFileUpload co [f] s = (Next, s)
             \<and> getCumulativeSize s = Num (n + int (size_bytes f))"
        by simp
      then show ?thesis by blast
    next
      case False
      with c12 c4 h v have "handleFileUpload co [f] s = (Next, t)
             \<and> getCumulativeSize t = Num (n + int (size_bytes f))"
        by simp
      then show ?thesis by blast
    qed
  qed
  show ?thesis
  proof (intro exI conjI)
    show \<open>t = s\<lparr>files := (files s)(CUMULATIVE_SIZE_FILE \<mapsto>
              \<lparr>bytes = ''{"totalSize":'' @ show_int (n + int (size_bytes f)) @ ''}'',
               json = Some (Obj [(''totalSize'', Num (n + int (size_bytes f)))])\<rparr>)\<rparr>\<close>
      unfolding t_def st by (rule refl)
  qed (rule c3 c4 c12 c0 c5)+
qed

theorem upload_increments_ledger_witness:
  "getCumulativeSize (ledger_holding 700) = Num 700
   \<and> fst (handleFileUpload co_NaN [report_upload] (ledger_holding 700)) = Next
   \<and> getCumulativeSize (snd (handleFileUpload co_NaN [report_upload] (ledger_holding 700)))
       = Num 2748"
proof -
  have sz: "int (size_bytes report_upload) = 2048"
    by (simp add: report_upload_def)
  have sf: "isSafeInteger (700 + int (size_bytes report_upload))"
    by (simp add: sz isSafeInteger_def)
  have v: "fieldname report_upload = ''report_pdf'' \<and> fileFilter report_upload = Inr True
          \<and> size_bytes report_upload \<le> fileSize_limit
          \<and> fault (ledger_holding 700) WriteFile CUMULATIVE_SIZE_FILE = None
          \<and> fault (ledger_holding 700) ReadFile CUMULATIVE_SIZE_FILE = None"
    by (simp add: fileFilter_report_upload)
       (simp add: report_upload_def fileSize_limit_def ledger_holding_def empty_fs_def)
  have nn: "(0::int) \<le> 700" by simp
  from upload_increments_ledger [OF getCumulativeSize_holding_700 nn sf, of co_NaN]
  have h: "fieldname report_upload = ''report_pdf'' \<and> fileFilter report_upload = Inr True
          \<and> size_bytes report_upload \<le> fileSize_limit
          \<and> fault (ledger_holding 700) WriteFile CUMULATIVE_SIZE_FILE = None
          \<and> fault (ledger_holding 700) ReadFile CUMULATIVE_SIZE_FILE = None \<longrightarrow>
          (\<exists>u. handleFileUpload co_NaN [report_upload] (ledger_holding 700) = (Next, u)
             \<and> getCumulativeSize u = Num (700 + int (size_bytes report_upload)))"
    by (elim exE conjE)
  from h v obtain u
    where "handleFileUpload co_NaN [report_upload] (ledger_holding 700) = (Next, u)"
      and "getCumulativeSize u = Num (700 + int (size_bytes report_upload))"
    by blast
  then have "fst (handleFileUpload co_NaN [report_upload] (ledger_holding 700)) = Next
   \<and> getCumulativeSize (snd (handleFileUpload co_NaN [report_upload] (ledger_holding 700)))
       = Num 2748"
    by (simp add: sz)
  with getCumulativeSize_holding_700 show ?thesis by blast
qed

section \<open>Claims about the deletion\<close>

text \<open>
  C7, as the claim states it for every path, fails in three ways. It fails on a path of
  the ledger file itself: on a disk whose ledger holds \<^verbatim>\<open>{"totalSize":500}\<close> (17 bytes),
  deleting \<^verbatim>\<open>./cumulativeSize.json\<close>, or \<^verbatim>\<open>cumulativeSize.json\<close> where that spelling resolves
  to the same file, stats and unlinks the ledger, then reads the missing ledger as 0 and
  writes \<^verbatim>\<open>{"totalSize":0}\<close>: the call returns true, the file is on disk again, and the
  total went from 500 to 0, not to 483. It fails beyond \<open>2^53\<close>: deleting a file of one
  byte beside a ledger holding \<open>2^53 + 2\<close> returns true and leaves \<open>2^53\<close>, the difference
  \<open>2^53 + 1\<close> not being a double. It fails on a ledger that does not hold a number:
  deleting a file beside a ledger whose \<^verbatim>\<open>totalSize\<close> is the string \<^verbatim>\<open>"abc"\<close> returns true
  and leaves \<^verbatim>\<open>{"totalSize":null}\<close>.
\<close>

theorem deleteReportFile_ledger_counterexample:
  "getCumulativeSize (ledger_holding 500) = Num 500
   \<and> stat (ledger_holding 500) CUMULATIVE_SIZE_FILE = Inr 17
   \<and> deleteReportFile co_NaN CUMULATIVE_SIZE_FILE (ledger_holding 500) = (True, ledger_holding 0)
   \<and> files (ledger_holding 0) CUMULATIVE_SIZE_FILE \<noteq> None
   \<and> persisted_totalSize (ledger_holding 0) = Some (Num 0)
   \<and> max 0 (500 - 17) \<noteq> (0::int)
   \<and> fst (deleteReportFile co_NaN ''cumulativeSize.json'' ledger_500_aliased)
   \<and> files (snd (deleteReportFile co_NaN ''cumulativeSize.json'' ledger_500_aliased))
        CUMULATIVE_SIZE_FILE \<noteq> None
   \<and> persisted_totalSize (snd (deleteReportFile co_NaN ''cumulativeSize.json''
        ledger_500_aliased)) = Some (Num 0)
   \<and> getCumulativeSize big_ledger_with_tiny = Num 9007199254740994
   \<and> stat big_ledger_with_tiny tiny_path = Inr 1
   \<and> fst (deleteReportFile co_NaN tiny_path big_ledger_with_tiny)
   \<and> persisted_totalSize (snd (deleteReportFile co_NaN tiny_path big_ledger_with_tiny))
       = Some (Num 9007199254740992)
   \<and> max 0 (9007199254740994 - 1) \<noteq> (9007199254740992 :: int)
   \<and> getCumulativeSize abc_ledger_with_report = Str ''abc''
   \<and> fst (deleteReportFile co_zero stored_path abc_ledger_with_report)
   \<and> persisted_totalSize (snd (deleteReportFile co_zero stored_path abc_ledger_with_report))
       = Some Null"
proof -
  have a0: "getCumulativeSize (ledger_holding 500) = Num 500"
    by (simp add: ledger_holding_def empty_fs_def getCumulativeSize_def
        getCumulativeSize_try_def readFile_def JSON_parse_def js_or_def)
  have a1: "stat (ledger_holding 500) CUMULATIVE_SIZE_FILE = Inr 17"
    using length_ledger_500
    by (simp add: stat_def ledger_holding_file ledger_holding_faults)
  have a2: "files (ledger_holding 0) CUMULATIVE_SIZE_FILE \<noteq> None"
    by (simp add: ledger_holding_file)
  have a3: "persisted_totalSize (ledger_holding 0) = Some (Num 0)"
    by (simp add: persisted_totalSize_def ledger_holding_file)
  have a4: "max 0 (500 - 17) \<noteq> (0::int)" by simp
  note a = a0 a1 delete_ledger_500 a2 a3 a4
  have b': "fst (deleteReportFile co_NaN ''cumulativeSize.json'' ledger_500_aliased)
   \<and> files (snd (deleteReportFile co_NaN ''cumulativeSize.json'' ledger_500_aliased))
        CUMULATIVE_SIZE_FILE \<noteq> None
   \<and> persisted_totalSize (snd (deleteReportFile co_NaN ''cumulativeSize.json''
        ledger_500_aliased)) = Some (Num 0)"
    unfolding delete_aliased_ledger by (simp add: persisted_totalSize_def)
  have rt: "resolve big_ledger_with_tiny tiny_path = tiny_path"
    by (simp add: resolve_def big_ledger_with_tiny_def empty_fs_def tiny_path_def
        CUMULATIVE_SIZE_FILE_def)
  have ne: "tiny_path \<noteq> CUMULATIVE_SIZE_FILE"
    by (simp add: tiny_path_def CUMULATIVE_SIZE_FILE_def)
  have rb: "getCumulativeSize big_ledger_with_tiny = Num 9007199254740994"
    using ne by (simp add: big_ledger_with_tiny_def empty_fs_def getCumulativeSize_def
        getCumulativeSize_try_def readFile_def JSON_parse_def js_or_def)
  have sb: "stat big_ledger_with_tiny tiny_path = Inr 1"
    by (simp add: stat_def big_ledger_with_tiny_def empty_fs_def)
  have fb: "files big_ledger_with_tiny tiny_path = Some \<lparr>bytes = ''x'', json = None\<rparr>"
    by (simp add: big_ledger_with_tiny_def)
  have ftb: "\<And>c p. fault big_ledger_with_tiny c p = None"
    by (simp add: big_ledger_with_tiny_def empty_fs_def)
  have rb1: "getCumulativeSize
               (big_ledger_with_tiny\<lparr>files := (files big_ledger_with_tiny)(tiny_path := None)\<rparr>)
             = Num 9007199254740994"
    using ne rb by (subst getCumulativeSize_cong [of _ big_ledger_with_tiny]) auto
  have tdb: "max 0 (to_double (9007199254740994 + - int (length (bytes \<lparr>bytes = ''x'', json = None\<rparr>))))
               = 9007199254740992"
    by (simp add: to_double_above_2_53)
  have cb: "deleteReportFile co_NaN tiny_path big_ledger_with_tiny =
     (True, big_ledger_with_tiny\<lparr>files := ((files big_ledger_with_tiny)(tiny_path := None))
                 (CUMULATIVE_SIZE_FILE \<mapsto>
                    JSON_stringify_totalSize co_NaN (Finite 9007199254740992))\<rparr>)"
    using deleteReportFile_Num [where co = co_NaN, OF rt fb ftb ftb rb1 ftb]
    by (simp only: tdb)
  have c': "fst (deleteReportFile co_NaN tiny_path big_ledger_with_tiny)
   \<and> persisted_totalSize (snd (deleteReportFile co_NaN tiny_path big_ledger_with_tiny))
       = Some (Num 9007199254740992)"
    unfolding cb by (simp add: persisted_totalSize_def)
  have rp: "resolve abc_ledger_with_report stored_path = stored_path"
    by (simp add: resolve_def abc_ledger_with_report_def abc_ledger_def empty_fs_def
        stored_path_def CUMULATIVE_SIZE_FILE_def)
  have nes: "stored_path \<noteq> CUMULATIVE_SIZE_FILE"
    by (simp add: stored_path_def CUMULATIVE_SIZE_FILE_def)
  have ra: "getCumulativeSize abc_ledger_with_report = Str ''abc''"
    using nes by (simp add: abc_ledger_with_report_def abc_ledger_def empty_fs_def
        getCumulativeSize_def getCumulativeSize_try_def readFile_def JSON_parse_def js_or_def)
  have fa: "files abc_ledger_with_report stored_path =
              Some \<lparr>bytes = replicate 2048 (CHR ''x''), json = None\<rparr>"
    by (simp add: abc_ledger_with_report_def)
  have fta: "\<And>c p. fault abc_ledger_with_report c p = None"
    by (simp add: abc_ledger_with_report_def abc_ledger_def empty_fs_def)
  have ra1: "getCumulativeSize
               (abc_ledger_with_report\<lparr>files := (files abc_ledger_with_report)(stored_path := None)\<rparr>)
             = Str ''abc''"
    using nes ra by (subst getCumulativeSize_cong [of _ abc_ledger_with_report]) auto
  have la: "starts_with_letter ''abc''"
    by (simp add: starts_with_letter_def)
  have ca: "deleteReportFile co_zero stored_path abc_ledger_with_report =
     (True, abc_ledger_with_report\<lparr>files := ((files abc_ledger_with_report)(stored_path := None))
                 (CUMULATIVE_SIZE_FILE \<mapsto> JSON_stringify_totalSize co_zero NaN)\<rparr>)"
    by (rule deleteReportFile_Str [OF rp fa fta fta ra1 la fta])
  have d': "fst (deleteReportFile co_zero stored_path abc_ledger_with_report)
   \<and> persisted_totalSize (snd (deleteReportFile co_zero stored_path abc_ledger_with_report))
       = Some Null"
    unfolding ca by (simp add: persisted_totalSize_def)
  have mx: "max 0 (9007199254740994 - 1) \<noteq> (9007199254740992 :: int)" by simp
  from a b' rb sb c' mx ra d' show ?thesis by blast
qed

text \<open>
  C7, amended. \<^verbatim>\<open>deleteReportFile(path)\<close> returns true exactly when its three steps
  succeed one after the other: the stat of the file that the path resolves to, the unlink,
  and the adjustment of the ledger by minus the size read; in every other case it returns
  false, no error leaving the function. For every path that does not resolve to the ledger
  file, when the call returns true, the ledger read as the integer \<open>n\<close> before it, and \<open>n\<close>,
  the size of the file and \<open>n - size\<close> are safe integers (at most \<open>2^53 - 1\<close> in magnitude),
  the file existed, is no longer on disk afterwards, and the total on disk is
  \<open>max 0 (n - size)\<close>.
\<close>

theorem deleteReportFile_spec:
  "(fst (deleteReportFile co p s) \<longleftrightarrow>
     (\<exists>sz s1 r s2. stat s (resolve s p) = Inr sz \<and> unlink s (resolve s p) = Inr s1
        \<and> updateCumulativeSize co (- int sz) s1 = Inr (r, s2)))
   \<and> (\<forall>s' n sz. resolve s p \<noteq> CUMULATIVE_SIZE_FILE \<and> deleteReportFile co p s = (True, s')
          \<and> getCumulativeSize s = Num n \<and> stat s (resolve s p) = Inr sz
          \<and> isSafeInteger n \<and> isSafeInteger (int sz) \<and> isSafeInteger (n - int sz) \<longrightarrow>
          files s (resolve s p) \<noteq> None \<and> files s' (resolve s p) = None
          \<and> persisted_totalSize s' = Some (Num (max 0 (n - int sz))))"
proof (rule conjI)
  show "fst (deleteReportFile co p s) \<longleftrightarrow>
     (\<exists>sz s1 r s2. stat s (resolve s p) = Inr sz \<and> unlink s (resolve s p) = Inr s1
        \<and> updateCumulativeSize co (- int sz) s1 = Inr (r, s2))"
    by (rule deleteReportFile_True_iff)
next
  show "\<forall>s' n sz. resolve s p \<noteq> CUMULATIVE_SIZE_FILE \<and> deleteReportFile co p s = (True, s')
          \<and> getCumulativeSize s = Num n \<and> stat s (resolve s p) = Inr sz
          \<and> isSafeInteger n \<and> isSafeInteger (int sz) \<and> isSafeInteger (n - int sz) \<longrightarrow>
          files s (resolve s p) \<noteq> None \<and> files s' (resolve s p) = None
          \<and> persisted_totalSize s' = Some (Num (max 0 (n - int sz)))"
  proof (intro allI impI)
  fix s' n sz
  assume a: "resolve s p \<noteq> CUMULATIVE_SIZE_FILE \<and> deleteReportFile co p s = (True, s')
          \<and> getCumulativeSize s = Num n \<and> stat s (resolve s p) = Inr sz
          \<and> isSafeInteger n \<and> isSafeInteger (int sz) \<and> isSafeInteger (n - int sz)"
  let ?q = "resolve s p"
  from a obtain sz' s1 r where st: "stat s ?q = Inr sz'" and ul: "unlink s ?q = Inr s1"
    and up: "updateCumulativeSize co (- int sz') s1 = Inr (r, s')"
    using deleteReportFile_True_state by blast
  from a st have sz: "sz' = sz" by simp
  from st obtain f where f: "files s ?q = Some f"
    using stat_result by blast
  from ul have s1: "s1 = s\<lparr>files := (files s)(?q := None)\<rparr>"
    using unlink_result by blast
  have "getCumulativeSize s1 = getCumulativeSize s"
    using a by (intro getCumulativeSize_cong) (auto simp: s1)
  with a have r1: "getCumulativeSize s1 = Num n" by simp
  from a have td: "to_double (n + - int sz) = n - int sz"
    by (simp add: to_double_safe)
  from updateCumulativeSize_cases [OF r1, of co "- int sz"] up
  have s': "s' = s1\<lparr>files := (files s1)(CUMULATIVE_SIZE_FILE \<mapsto>
                  JSON_stringify_totalSize co (Finite (max 0 (n - int sz))))\<rparr>"
    unfolding sz td by auto
  have gone: "files s' ?q = None"
    using a by (simp add: s' s1)
  have "persisted_totalSize s' = Some (Num (max 0 (n - int sz)))"
    unfolding s' by (rule persisted_after_write)
  with f gone
  show "files s (resolve s p) \<noteq> None \<and> files s' (resolve s p) = None
          \<and> persisted_totalSize s' = Some (Num (max 0 (n - int sz)))"
    by simp
  qed
qed

theorem deleteReportFile_spec_witness:
  "deleteReportFile co_NaN stored_path (disk_with_report 5000) = (True, ledger_holding 2952)
   \<and> files (disk_with_report 5000) stored_path \<noteq> None
   \<and> files (ledger_holding 2952) stored_path = None
   \<and> persisted_totalSize (ledger_holding 2952) = Some (Num 2952)"
proof -
  have ne: "stored_path \<noteq> CUMULATIVE_SIZE_FILE"
    by (simp add: stored_path_def CUMULATIVE_SIZE_FILE_def)
  have rs: "resolve (disk_with_report 5000) stored_path = stored_path"
    using ne by (simp add: resolve_def disk_with_report_def ledger_holding_def empty_fs_def)
  have st: "stat (disk_with_report 5000) stored_path = Inr 2048"
    by (simp add: stat_def disk_with_report_def ledger_holding_def empty_fs_def)
  have fd: "files (disk_with_report 5000) stored_path =
              Some \<lparr>bytes = replicate 2048 (CHR ''x''), json = None\<rparr>"
    by (simp add: disk_with_report_def)
  have ftd: "\<And>c p. fault (disk_with_report 5000) c p = None"
    by (simp add: disk_with_report_def ledger_holding_def empty_fs_def)
  have rd1: "getCumulativeSize
               ((disk_with_report 5000)\<lparr>files := (files (disk_with_report 5000))(stored_path := None)\<rparr>)
             = Num 5000"
    using ne by (simp add: disk_with_report_def ledger_holding_def empty_fs_def
        getCumulativeSize_def getCumulativeSize_try_def readFile_def JSON_parse_def js_or_def)
  have tdd: "max 0 (to_double (5000 + - int (length (bytes
               \<lparr>bytes = replicate 2048 (CHR ''x''), json = None\<rparr>)))) = 2952"
    by (simp add: to_double_exact)
  have eqd: "(disk_with_report 5000)\<lparr>files := ((files (disk_with_report 5000))(stored_path := None))
                 (CUMULATIVE_SIZE_FILE \<mapsto> JSON_stringify_totalSize co_NaN (Finite 2952))\<rparr>
             = ledger_holding 2952"
    using ne by (simp add: disk_with_report_def ledger_holding_def empty_fs_def fun_upd_twist)
  have d: "deleteReportFile co_NaN stored_path (disk_with_report 5000) = (True, ledger_holding 2952)"
    using deleteReportFile_Num [where co = co_NaN, OF rs fd ftd ftd rd1 ftd]
    by (simp only: tdd eqd)
  have r: "getCumulativeSize (disk_with_report 5000) = Num 5000"
    by (simp add: disk_with_report_def ledger_holding_def empty_fs_def getCumulativeSize_def
        getCumulativeSize_try_def readFile_def JSON_parse_def js_or_def stored_path_def
        CUMULATIVE_SIZE_FILE_def)
  have sf: "isSafeInteger 5000 \<and> isSafeInteger (int 2048) \<and> isSafeInteger (5000 - int 2048)"
    by (simp add: isSafeInteger_def)
  from deleteReportFile_spec [of co_NaN stored_path "disk_with_report 5000", THEN conjunct2,
         rule_format, of "ledger_holding 2952" 5000 2048] ne d r st sf
  have "files (disk_with_report 5000) stored_path \<noteq> None
     \<and> files (ledger_holding 2952) stored_path = None
     \<and> persisted_totalSize (ledger_holding 2952) = Some (Num (max 0 (5000 - int 2048)))"
    unfolding rs by blast
  then have "files (disk_with_report 5000) stored_path \<noteq> None
     \<and> files (ledger_holding 2952) stored_path = None
     \<and> persisted_totalSize (ledger_holding 2952) = Some (Num 2952)"
    by simp
  with d show ?thesis by simp
qed

text \<open>
  C10. \<^verbatim>\<open>deleteReportFile\<close> is not atomic. Whenever the path resolves to a file other than
  the ledger, the stat and the unlink of that file succeed and the write of the ledger is
  refused, the call returns false in a state that differs from the one it started in: the
  file, which was on disk, is gone, and the ledger file is as it was, so the total has not
  been decremented.
\<close>

theorem deleteReportFile_not_atomic:
  assumes "resolve s filePath = p"
    and "stat s p = Inr sz" and "fault s Unlink p = None"
    and "fault s WriteFile CUMULATIVE_SIZE_FILE = Some e"
    and "p \<noteq> CUMULATIVE_SIZE_FILE"
  shows "deleteReportFile co filePath s = (False, s\<lparr>files := (files s)(p := None)\<rparr>)
         \<and> files s p \<noteq> None
         \<and> files (s\<lparr>files := (files s)(p := None)\<rparr>) p = None
         \<and> files (s\<lparr>files := (files s)(p := None)\<rparr>) CUMULATIVE_SIZE_FILE
             = files s CUMULATIVE_SIZE_FILE
         \<and> s\<lparr>files := (files s)(p := None)\<rparr> \<noteq> s"
proof -
  from assms(2) obtain f where f: "files s p = Some f"
    using stat_result by blast
  with assms(3) have ul: "unlink s p = Inr (s\<lparr>files := (files s)(p := None)\<rparr>)"
    by (simp add: unlink_def)
  have "fault (s\<lparr>files := (files s)(p := None)\<rparr>) WriteFile CUMULATIVE_SIZE_FILE = Some e"
    using assms(4) by simp
  then obtain e' where
    "updateCumulativeSize co (- int sz) (s\<lparr>files := (files s)(p := None)\<rparr>) = Inl e'"
    using updateCumulativeSize_write_fault by blast
  with assms(1,2) ul
  have d: "deleteReportFile co filePath s = (False, s\<lparr>files := (files s)(p := None)\<rparr>)"
    by (simp add: deleteReportFile_def)
  have ne: "s\<lparr>files := (files s)(p := None)\<rparr> \<noteq> s"
  proof
    assume "s\<lparr>files := (files s)(p := None)\<rparr> = s"
    then have "files (s\<lparr>files := (files s)(p := None)\<rparr>) p = files s p" by simp
    with f show False by simp
  qed
  from d f ne assms(5) show ?thesis by simp
qed

theorem deleteReportFile_not_atomic_witness:
  "deleteReportFile co_NaN stored_path readonly_ledger_disk =
     (False, readonly_ledger_disk\<lparr>files := (files readonly_ledger_disk)(stored_path := None)\<rparr>)
   \<and> files readonly_ledger_disk stored_path \<noteq> None
   \<and> persisted_totalSize
        (readonly_ledger_disk\<lparr>files := (files readonly_ledger_disk)(stored_path := None)\<rparr>)
       = Some (Num 5000)"
proof -
  have ne: "stored_path \<noteq> CUMULATIVE_SIZE_FILE"
    by (simp add: stored_path_def CUMULATIVE_SIZE_FILE_def)
  have rs: "resolve readonly_ledger_disk stored_path = stored_path"
    using ne by (simp add: resolve_def readonly_ledger_disk_def disk_with_report_def
        ledger_holding_def empty_fs_def)
  have st: "stat readonly_ledger_disk stored_path = Inr 2048"
    by (simp add: stat_def readonly_ledger_disk_def disk_with_report_def)
  have ul: "fault readonly_ledger_disk Unlink stored_path = None"
    by (simp add: readonly_ledger_disk_def)
  have wf: "fault readonly_ledger_disk WriteFile CUMULATIVE_SIZE_FILE = Some EACCES"
    by (simp add: readonly_ledger_disk_def)
  have p: "persisted_totalSize
        (readonly_ledger_disk\<lparr>files := (files readonly_ledger_disk)(stored_path := None)\<rparr>)
       = Some (Num 5000)"
    using ne by (simp add: persisted_totalSize_def readonly_ledger_disk_def disk_with_report_def
        ledger_holding_def empty_fs_def)
  from deleteReportFile_not_atomic [OF rs st ul wf ne, of co_NaN] p
  show ?thesis by simp
qed

section \<open>Claims about the storage file name\<close>

text \<open>
  C9, as the claim states it, fails: the random integer is not always below \<open>10^9\<close>.
  \<^verbatim>\<open>Math.round\<close> rounds to the nearest integer, so a draw of \<^verbatim>\<open>Math.random()\<close> from
  \<open>1 - 5 * 10^-10\<close> on gives \<open>10^9\<close> itself, as \<open>0.9999999999\<close> does here. (The product
  is \<open>999999999.9\<close>; the rounding of the runtime's doubles moves it by less than
  \<open>10^-6\<close>.)
\<close>

theorem storage_filename_counterexample:
  "(0::real) \<le> 9999999999 / 10000000000 \<and> (9999999999 / 10000000000 :: real) < 1
   \<and> Math_round (9999999999 / 10000000000 * 1000000000) = 1000000000
   \<and> storage_filename 1730000000000 (9999999999 / 10000000000) report_upload =
       ''1730000000000-1000000000-report.pdf''"
  by (simp add: storage_filename_def Math_round_def show_int_def show_nat.simps
      report_upload_def)

text \<open>
  C9, amended. For every value \<open>0 \<le> random < 1\<close> of \<^verbatim>\<open>Math.random()\<close>, the stored file name
  is the decimal text of \<^verbatim>\<open>Date.now()\<close>, a dash, the decimal text of an integer \<open>k\<close>, a
  dash and the original file name, where \<open>k\<close> lies in the closed interval from 0 to
  \<open>10^9\<close>.
\<close>

theorem storage_filename_form:
  "0 \<le> random \<and> random < 1 \<longrightarrow>
     (\<exists>k. 0 \<le> k \<and> k \<le> 1000000000
        \<and> storage_filename now random f =
            show_nat now @ ''-'' @ show_nat (nat k) @ ''-'' @ originalname f)"
proof
  assume a: "0 \<le> random \<and> random < 1"
  let ?k = "Math_round (random * 1000000000)"
  from a have b: "0 \<le> ?k \<and> ?k \<le> 1000000000"
    using Math_round_bounds by blast
  then have "show_int ?k = show_nat (nat ?k)"
    by (simp add: show_int_def)
  then have "storage_filename now random f =
            show_nat now @ ''-'' @ show_nat (nat ?k) @ ''-'' @ originalname f"
    by (simp add: storage_filename_def)
  with b show "\<exists>k. 0 \<le> k \<and> k \<le> 1000000000
        \<and> storage_filename now random f =
            show_nat now @ ''-'' @ show_nat (nat k) @ ''-'' @ originalname f"
    by blast
qed

theorem storage_filename_form_witness:
  "storage_filename 1730000000000 (1 / 4) report_upload = ''1730000000000-250000000-report.pdf''
   \<and> (\<exists>k. 0 \<le> k \<and> k \<le> 1000000000
        \<and> storage_filename 1730000000000 (1 / 4) report_upload =
            show_nat 1730000000000 @ ''-'' @ show_nat (nat k) @ ''-''
              @ originalname report_upload)"
proof -
  have "(0::real) \<le> 1 / 4 \<and> (1 / 4 :: real) < 1" by simp
  with storage_filename_form [of "1 / 4" 1730000000000 report_upload]
  have "\<exists>k. 0 \<le> k \<and> k \<le> 1000000000
        \<and> storage_filename 1730000000000 (1 / 4) report_upload =
            show_nat 1730000000000 @ ''-'' @ show_nat (nat k) @ ''-''
              @ originalname report_upload"
    by blast
  moreover have "storage_filename 1730000000000 (1 / 4) report_upload
                   = ''1730000000000-250000000-report.pdf''"
    by (simp add: storage_filename_def Math_round_def show_int_def show_nat.simps
        report_upload_def)
  ultimately show ?thesis by blast
qed

end
